theory Spec2Isabelle
  imports Main "HOL-Library.Word"
begin

unbundle bit_operations_syntax

section \<open>BSMS (BIP-129) engine of \<^verbatim>\<open>shared/bsms.py\<close>\<close>

text \<open>
  Python values are modelled as follows: a \<^verbatim>\<open>str\<close> is a \<^typ>\<open>string\<close> (one
  \<^typ>\<open>char\<close> per character, so \<^verbatim>\<open>len\<close> is \<^const>\<open>length\<close>), a
  \<^verbatim>\<open>bytes\<close> object is a list of 8-bit words, an exception is a value of the type
  \<open>error\<close> returned on the left of a sum. The rounds are decorated with
  \<^verbatim>\<open>exceptions_handler\<close>, which shows whatever a round raises in a story titled
  FAILURE; the model of a round returns that exception.
\<close>

type_synonym byte = "8 word"
type_synonym bytes = "byte list"

datatype error =
    InvalidToken string
  | InvalidTokenLength
  | UnhexlifyError
  | SignersOutOfRange
  | ThresholdOutOfRange
  | DescriptionTooLong nat
  | IncompatibleVersion
  | UnpackError
  | PathRestrictionsNotAllowed
  | DescriptorParseError
  | ExtKeyPrefixMismatch
  | DeserializeError
  | ZeroDivisionError
  | MultipleOwnKeys nat
  | OwnKeyMissing
  | OwnKeyMismatch
  | AddressMismatch string string
  | IndexError
  | BSMSOutOfSpace

subsection \<open>Builtins of the language used by the token functions\<close>

definition is_hex_char :: "char \<Rightarrow> bool" where
  "is_hex_char c =
     (let n = (of_char c :: nat)
      in (48 \<le> n \<and> n \<le> 57) \<or> (97 \<le> n \<and> n \<le> 102) \<or> (65 \<le> n \<and> n \<le> 70))"

definition is_hex_string :: "string \<Rightarrow> bool" where
  "is_hex_string s = list_all is_hex_char s"

definition is_space_char :: "char \<Rightarrow> bool" where
  "is_space_char c = (let n = (of_char c :: nat) in n = 32 \<or> (9 \<le> n \<and> n \<le> 13))"

definition py_strip :: "string \<Rightarrow> string" where
  "py_strip s = rev (dropWhile is_space_char (rev (dropWhile is_space_char s)))"

text \<open>
  The digits of an integer literal: hexadecimal digits, with single underscores allowed
  between two digits.
\<close>

fun hex_rest :: "string \<Rightarrow> bool" where
  "hex_rest [] = True"
| "hex_rest (c # cs) =
     (if c = CHR ''_''
      then (case cs of [] \<Rightarrow> False | d # ds \<Rightarrow> is_hex_char d \<and> hex_rest ds)
      else is_hex_char c \<and> hex_rest cs)"

definition hex_body :: "string \<Rightarrow> bool" where
  "hex_body s = (case s of [] \<Rightarrow> False | c # cs \<Rightarrow> is_hex_char c \<and> hex_rest cs)"

definition strip_sign :: "string \<Rightarrow> string" where
  "strip_sign s =
     (case s of [] \<Rightarrow> [] | c # cs \<Rightarrow> if c = CHR ''+'' \<or> c = CHR ''-'' then cs else s)"

definition strip_base16_prefix :: "string \<Rightarrow> string" where
  "strip_base16_prefix s =
     (if take 2 s = ''0x'' \<or> take 2 s = ''0X''
      then (case drop 2 s of [] \<Rightarrow> [] | c # cs \<Rightarrow> if c = CHR ''_'' then cs else c # cs)
      else s)"

text \<open>
  Whether \<^verbatim>\<open>int(s, 16)\<close> returns (rather than raising \<^verbatim>\<open>ValueError\<close>), after the
  language reference: the string may be surrounded by whitespace, carry a sign, and
  carry the base prefix \<^verbatim>\<open>0x\<close> or \<^verbatim>\<open>0X\<close>, which an underscore may follow.
\<close>

definition py_int16_ok :: "string \<Rightarrow> bool" where
  "py_int16_ok s = hex_body (strip_base16_prefix (strip_sign (py_strip s)))"

subsection \<open>Tokens\<close>

text \<open>\<^verbatim>\<open>normalize_token\<close>: removes a leading \<^verbatim>\<open>0x\<close> or \<^verbatim>\<open>0X\<close>.\<close>

definition normalize_token :: "string \<Rightarrow> string" where
  "normalize_token token_hex =
     (if take 2 token_hex = ''0x'' \<or> take 2 token_hex = ''0X''
      then drop 2 token_hex else token_hex)"

text \<open>\<^verbatim>\<open>validate_token\<close>: returns normally or raises \<^verbatim>\<open>ValueError\<close>.\<close>

definition validate_token :: "string \<Rightarrow> error + unit" where
  "validate_token token_hex =
     (if token_hex = ''00'' then Inr ()
      else if \<not> py_int16_ok token_hex then Inl (InvalidToken token_hex)
      else if length token_hex \<noteq> 16 \<and> length token_hex \<noteq> 32 then Inl InvalidTokenLength
      else Inr ())"

subsection \<open>Library primitives\<close>

text \<open>
  The cryptographic primitives of the \<^verbatim>\<open>ngu\<close> library and the text codec of the
  language runtime are not part of \<^verbatim>\<open>bsms.py\<close>; the engine is modelled over any
  implementation of them. \<open>aes_ctr key iv data\<close> is \<^verbatim>\<open>ngu.aes.CTR(key, iv).cipher(data)\<close>
  on a fresh cipher object; \<open>utf8_decode\<close> is \<^verbatim>\<open>bytes.decode()\<close>, \<open>None\<close> when it
  raises.
\<close>

record primitives =
  pbkdf2_sha512 :: "bytes \<Rightarrow> bytes \<Rightarrow> nat \<Rightarrow> bytes"
  sha256s :: "bytes \<Rightarrow> bytes"
  hmac_sha256 :: "bytes \<Rightarrow> bytes \<Rightarrow> bytes"
  aes_ctr :: "bytes \<Rightarrow> bytes \<Rightarrow> bytes \<Rightarrow> bytes"
  utf8_encode :: "string \<Rightarrow> bytes"
  utf8_decode :: "bytes \<Rightarrow> string option"

text \<open>\<^verbatim>\<open>str.startswith\<close>.\<close>

definition startswith :: "string \<Rightarrow> string \<Rightarrow> bool" where
  "startswith s p = (take (length p) s = p)"

text \<open>\<^verbatim>\<open>ubinascii.unhexlify\<close>: \<open>None\<close> when it raises (odd length or a non-hex digit).\<close>

definition hex_val :: "char \<Rightarrow> nat option" where
  "hex_val c =
     (let n = (of_char c :: nat)
      in if 48 \<le> n \<and> n \<le> 57 then Some (n - 48)
         else if 97 \<le> n \<and> n \<le> 102 then Some (n - 87)
         else if 65 \<le> n \<and> n \<le> 70 then Some (n - 55)
         else None)"

fun a2b_hex :: "string \<Rightarrow> bytes option" where
  "a2b_hex [] = Some []"
| "a2b_hex [c] = None"
| "a2b_hex (a # b # cs) =
     (case hex_val a of None \<Rightarrow> None
      | Some x \<Rightarrow>
         (case hex_val b of None \<Rightarrow> None
          | Some y \<Rightarrow>
             (case a2b_hex cs of None \<Rightarrow> None
              | Some r \<Rightarrow> Some (of_nat (16 * x + y) # r))))"

subsection \<open>Key derivation and the envelope\<close>

text \<open>\<^verbatim>\<open>key_derivation_function\<close>: no key for the sentinel.\<close>

definition key_derivation_function :: "primitives \<Rightarrow> string \<Rightarrow> error + bytes option" where
  "key_derivation_function p token_hex =
     (if token_hex = ''00'' then Inr None
      else case a2b_hex token_hex of
             None \<Rightarrow> Inl UnhexlifyError
           | Some salt \<Rightarrow>
               Inr (Some (take 32 (pbkdf2_sha512 p (utf8_encode p ''No SPOF'') salt 2048))))"

definition hmac_key :: "primitives \<Rightarrow> bytes \<Rightarrow> bytes" where
  "hmac_key p key = sha256s p key"

definition msg_auth_code :: "primitives \<Rightarrow> bytes \<Rightarrow> string \<Rightarrow> string \<Rightarrow> bytes" where
  "msg_auth_code p key token_hex data =
     (let msg_str = token_hex @ data;
          msg_bytes = utf8_encode p msg_str
      in hmac_sha256 p key msg_bytes)"

text \<open>\<^verbatim>\<open>bsms_decrypt\<close>: the empty string stands for a failed decryption.\<close>

definition bsms_decrypt :: "primitives \<Rightarrow> bytes \<Rightarrow> bytes \<Rightarrow> string" where
  "bsms_decrypt p key data_bytes =
     (let mac = take 32 data_bytes;
          ciphertext = drop 32 data_bytes;
          iv = take 16 mac;
          decrypted = aes_ctr p key iv ciphertext
      in case utf8_decode p decrypted of
           None \<Rightarrow> []
         | Some plaintext \<Rightarrow> if \<not> startswith plaintext ''BSMS'' then [] else plaintext)"

definition bsms_encrypt :: "primitives \<Rightarrow> bytes \<Rightarrow> string \<Rightarrow> string \<Rightarrow> bytes" where
  "bsms_encrypt p key token_hex data_str =
     (let hmac_k = hmac_key p key;
          mac = msg_auth_code p hmac_k token_hex data_str;
          iv = take 16 mac;
          ciphertext = aes_ctr p key iv (utf8_encode p data_str)
      in mac @ ciphertext)"

subsection \<open>The settings object and its BSMS sessions\<close>

text \<open>
  Under the key \<^verbatim>\<open>bsms\<close> the settings hold a dict from \<^verbatim>\<open>"s"\<close> and \<^verbatim>\<open>"c"\<close> to
  lists of sessions. \<^verbatim>\<open>BSMSSettings\<close> mutates these dict and list objects in place and
  copies the dict with \<^verbatim>\<open>dict.copy()\<close>, so the objects live in an explicit store:
  a reference is an address, \<open>dict_objs\<close> and \<open>list_objs\<close> give the contents of the
  dict and list objects, and a dict maps its keys (in insertion order) to references
  of lists. \<open>current_bsms\<close> is the entry of the in-memory settings, \<open>nvram_bsms\<close>
  what the last successful \<^verbatim>\<open>settings.save()\<close> wrote, and \<open>save_outcomes\<close> says for
  each coming call of \<^verbatim>\<open>settings.save()\<close> whether it returns (\<open>True\<close>) or raises.
\<close>

datatype session =
    SignerSession string
  | CoordinatorSession int int int string "string list"

type_synonym ref = nat

record store =
  dict_objs :: "ref \<Rightarrow> (string \<times> ref) list"
  list_objs :: "ref \<Rightarrow> session list"
  next_ref :: ref
  current_bsms :: "ref option"
  nvram_bsms :: "(string \<times> session list) list option"
  save_outcomes :: "bool list"

definition dict_value :: "store \<Rightarrow> ref \<Rightarrow> (string \<times> session list) list" where
  "dict_value s d = map (\<lambda>(k, l). (k, list_objs s l)) (dict_objs s d)"

text \<open>The value the in-memory settings hold under \<^verbatim>\<open>bsms\<close>.\<close>

definition settings_value :: "store \<Rightarrow> (string \<times> session list) list option" where
  "settings_value s = map_option (dict_value s) (current_bsms s)"

text \<open>
  Modelled from the spec: the settings object of \<^verbatim>\<open>glob\<close> (\<^verbatim>\<open>nvstore.py\<close>, not
  among the sources), with its interface \<^verbatim>\<open>get(key)\<close>, \<^verbatim>\<open>set(key, value)\<close> and
  \<^verbatim>\<open>save()\<close>. \<^verbatim>\<open>settings.get("bsms", {})\<close> gives the stored dict object, or a
  fresh empty dict.
\<close>

definition settings_get_bsms :: "store \<Rightarrow> ref \<times> store" where
  "settings_get_bsms s =
     (case current_bsms s of
        Some d \<Rightarrow> (d, s)
      | None \<Rightarrow>
          (next_ref s,
           s\<lparr>dict_objs := (dict_objs s)(next_ref s := []), next_ref := Suc (next_ref s)\<rparr>))"

text \<open>\<^verbatim>\<open>dict.copy()\<close>: a new dict object with the same keys and the same list objects.\<close>

definition dict_copy :: "ref \<Rightarrow> store \<Rightarrow> ref \<times> store" where
  "dict_copy d s =
     (next_ref s,
      s\<lparr>dict_objs := (dict_objs s)(next_ref s := dict_objs s d), next_ref := Suc (next_ref s)\<rparr>)"

fun dict_set :: "string \<Rightarrow> ref \<Rightarrow> (string \<times> ref) list \<Rightarrow> (string \<times> ref) list" where
  "dict_set k v [] = [(k, v)]"
| "dict_set k v ((k', v') # r) = (if k = k' then (k, v) # r else (k', v') # dict_set k v r)"

text \<open>
  Modelled from the spec: \<^verbatim>\<open>settings.set("bsms", value)\<close> of the same object stores
  the reference it is given.
\<close>

definition settings_set_bsms :: "ref \<Rightarrow> store \<Rightarrow> store" where
  "settings_set_bsms d s = s\<lparr>current_bsms := Some d\<rparr>"

text \<open>
  Modelled from the spec: \<^verbatim>\<open>settings.save()\<close> of the same object is atomic; it
  writes the in-memory value or raises and writes nothing.
\<close>

definition settings_save :: "store \<Rightarrow> bool \<times> store" where
  "settings_save s =
     (case save_outcomes s of
        [] \<Rightarrow> (True, s\<lparr>nvram_bsms := settings_value s\<rparr>)
      | ok # rest \<Rightarrow>
          if ok then (True, s\<lparr>nvram_bsms := settings_value s, save_outcomes := rest\<rparr>)
          else (False, s\<lparr>save_outcomes := rest\<rparr>))"

text \<open>\<^verbatim>\<open>list.pop(index)\<close>: \<open>None\<close> when it raises \<^verbatim>\<open>IndexError\<close>.\<close>

definition py_pop :: "'a list \<Rightarrow> int \<Rightarrow> 'a list option" where
  "py_pop xs i =
     (let n = int (length xs);
          j = (if i < 0 then i + n else i)
      in if 0 \<le> j \<and> j < n then Some (take (nat j) xs @ drop (Suc (nat j)) xs) else None)"

text \<open>\<^verbatim>\<open>BSMSSettings.save\<close>\<close>

definition BSMSSettings_save :: "store \<Rightarrow> ref \<Rightarrow> (error + unit) \<times> store" where
  "BSMSSettings_save updated_settings orig =
     (case settings_save updated_settings of
        (True, s1) \<Rightarrow> (Inr (), s1)
      | (False, s1) \<Rightarrow>
          (let s2 = settings_set_bsms orig s1;
               (ok2, s3) = settings_save s2
           in (Inl BSMSOutOfSpace, s3)))"

text \<open>\<^verbatim>\<open>BSMSSettings.add\<close>\<close>

definition BSMSSettings_add :: "string \<Rightarrow> session \<Rightarrow> store \<Rightarrow> (error + unit) \<times> store" where
  "BSMSSettings_add who v s =
     (let (settings_bsms, s1) = settings_get_bsms s;
          (orig, s2) = dict_copy settings_bsms s1;
          s3 = (case map_of (dict_objs s2 settings_bsms) who of
                  Some l \<Rightarrow> s2\<lparr>list_objs := (list_objs s2)(l := list_objs s2 l @ [v])\<rparr>
                | None \<Rightarrow>
                    s2\<lparr>list_objs := (list_objs s2)(next_ref s2 := [v]),
                       dict_objs := (dict_objs s2)
                         (settings_bsms := dict_set who (next_ref s2) (dict_objs s2 settings_bsms)),
                       next_ref := Suc (next_ref s2)\<rparr>);
          s4 = settings_set_bsms settings_bsms s3
      in BSMSSettings_save s4 orig)"

text \<open>\<^verbatim>\<open>BSMSSettings.delete\<close>: an \<^verbatim>\<open>IndexError\<close> of \<^verbatim>\<open>pop\<close> is swallowed.\<close>

definition BSMSSettings_delete :: "string \<Rightarrow> int \<Rightarrow> store \<Rightarrow> (error + unit) \<times> store" where
  "BSMSSettings_delete who index s =
     (let (settings_bsms, s1) = settings_get_bsms s;
          (orig, s2) = dict_copy settings_bsms s1
      in case map_of (dict_objs s2 settings_bsms) who of
           None \<Rightarrow> (Inr (), s2)
         | Some l \<Rightarrow>
             (case py_pop (list_objs s2 l) index of
                None \<Rightarrow> (Inr (), s2)
              | Some xs \<Rightarrow>
                  (let s3 = s2\<lparr>list_objs := (list_objs s2)(l := xs)\<rparr>;
                       s4 = settings_set_bsms settings_bsms s3
                   in BSMSSettings_save s4 orig)))"

definition BSMS_SIGNER_SETTINGS :: string where
  "BSMS_SIGNER_SETTINGS = ''s''"

definition BSMS_COORD_SETTINGS :: string where
  "BSMS_COORD_SETTINGS = ''c''"

definition signer_add :: "string \<Rightarrow> store \<Rightarrow> (error + unit) \<times> store" where
  "signer_add token_hex s = BSMSSettings_add BSMS_SIGNER_SETTINGS (SignerSession token_hex) s"

definition coordinator_add :: "session \<Rightarrow> store \<Rightarrow> (error + unit) \<times> store" where
  "coordinator_add config_tuple s = BSMSSettings_add BSMS_COORD_SETTINGS config_tuple s"

definition signer_delete :: "int \<Rightarrow> store \<Rightarrow> (error + unit) \<times> store" where
  "signer_delete index s = BSMSSettings_delete BSMS_SIGNER_SETTINGS index s"

definition coordinator_delete :: "int \<Rightarrow> store \<Rightarrow> (error + unit) \<times> store" where
  "coordinator_delete index s = BSMSSettings_delete BSMS_COORD_SETTINGS index s"

text \<open>\<^verbatim>\<open>BSMSSettings.get\<close>, \<^verbatim>\<open>get_signers\<close> and \<^verbatim>\<open>get_coordinators\<close>, as values.\<close>

definition BSMSSettings_get :: "store \<Rightarrow> (string \<times> session list) list" where
  "BSMSSettings_get s = (case settings_value s of None \<Rightarrow> [] | Some d \<Rightarrow> d)"

definition get_signers :: "store \<Rightarrow> session list" where
  "get_signers s =
     (case map_of (BSMSSettings_get s) BSMS_SIGNER_SETTINGS of None \<Rightarrow> [] | Some l \<Rightarrow> l)"

definition get_coordinators :: "store \<Rightarrow> session list" where
  "get_coordinators s =
     (case map_of (BSMSSettings_get s) BSMS_COORD_SETTINGS of None \<Rightarrow> [] | Some l \<Rightarrow> l)"

subsection \<open>Observations used in the statements\<close>

text \<open>
  A call of \<^verbatim>\<open>BSMSSettings\<close> left the settings alone: it returned normally, the
  saved and the in-memory values are the old ones, and no \<^verbatim>\<open>settings.save()\<close> was
  called.
\<close>

definition unchanged_by :: "store \<Rightarrow> (error + unit) \<times> store \<Rightarrow> bool" where
  "unchanged_by s res =
     (fst res = Inr () \<and> nvram_bsms (snd res) = nvram_bsms s \<and>
      settings_value (snd res) = settings_value s \<and>
      save_outcomes (snd res) = save_outcomes s)"

text \<open>
  A device that holds one signer session, saved; the argument gives the outcomes of
  the coming saves.
\<close>

definition example_store :: "bool list \<Rightarrow> store" where
  "example_store outcomes =
     \<lparr>dict_objs = (\<lambda>_. [])(0 := [(''s'', 1)]),
      list_objs = (\<lambda>_. [])(1 := [SignerSession ''a1b2c3d4e5f60718'']),
      next_ref = 2,
      current_bsms = Some 0,
      nvram_bsms = Some [(''s'', [SignerSession ''a1b2c3d4e5f60718''])],
      save_outcomes = outcomes\<rparr>"

subsection \<open>Assumptions on the primitives, and an instance\<close>

text \<open>
  What the envelope needs of the library: an HMAC-SHA-256 value has 32 bytes, and the
  counter-mode cipher applied twice under the same key and IV gives the data back.
\<close>

definition sound_primitives :: "primitives \<Rightarrow> bool" where
  "sound_primitives p \<longleftrightarrow>
     (\<forall>k m. length (hmac_sha256 p k m) = 32) \<and>
     (\<forall>k iv x. aes_ctr p k iv (aes_ctr p k iv x) = x)"

text \<open>
  A small instance of the primitives, for evaluating the engine on concrete inputs:
  a byte-wise XOR with a byte made from the key and the IV as the cipher, and the ASCII
  codec. It has the two properties above and nothing else of the real primitives.
\<close>

definition example_primitives :: primitives where
  "example_primitives =
     \<lparr>pbkdf2_sha512 = (\<lambda>pw salt n. take 64 (salt @ pw @ replicate 64 0)),
      sha256s = (\<lambda>m. take 32 (m @ replicate 32 0)),
      hmac_sha256 = (\<lambda>k m. take 32 (m @ k @ replicate 32 0)),
      aes_ctr = (\<lambda>k iv x. map (\<lambda>b. b XOR (sum_list k + sum_list iv)) x),
      utf8_encode = map of_char,
      utf8_decode = (\<lambda>bs. if list_all (\<lambda>b. b < 128) bs
                           then Some (map (\<lambda>b. char_of (unat b)) bs) else None)\<rparr>"

subsection \<open>Strings and numbers of the rounds\<close>

definition BSMS_VERSION :: string where
  "BSMS_VERSION = ''BSMS 1.0''"

definition ALLOWED_PATH_RESTRICTIONS :: string where
  "ALLOWED_PATH_RESTRICTIONS = ''/0/*,/1/*''"

text \<open>
  Modelled from the spec: \<^verbatim>\<open>MAX_SIGNERS\<close> of \<^verbatim>\<open>public_constants.py\<close>, a file that is
  not among the sources; the spec bounds the number of signers by 15, as the message of
  the assertion that uses the constant does.
\<close>

definition MAX_SIGNERS :: int where
  "MAX_SIGNERS = 15"

definition nl :: string where
  "nl = [CHR 0x0A]"

text \<open>\<^verbatim>\<open>"%d" % n\<close> for a number that is not negative.\<close>

function py_str_nat :: "nat \<Rightarrow> string" where
  "py_str_nat n =
     (if n < 10 then [''0123456789'' ! n]
      else py_str_nat (n div 10) @ [''0123456789'' ! (n mod 10)])"
  by pat_completeness auto
termination
  by (relation "measure id") auto

declare py_str_nat.simps [simp del]

text \<open>\<^verbatim>\<open>ubinascii.hexlify\<close>, decoded to text.\<close>

definition hex_digit :: "nat \<Rightarrow> char" where
  "hex_digit n = ''0123456789abcdef'' ! n"

definition b2a_hex :: "bytes \<Rightarrow> string" where
  "b2a_hex bs = concat (map (\<lambda>b. [hex_digit (unat b div 16), hex_digit (unat b mod 16)]) bs)"

text \<open>\<^verbatim>\<open>str.split(sep)\<close> for a separator of one character.\<close>

fun py_split :: "char \<Rightarrow> string \<Rightarrow> string list" where
  "py_split sep [] = [[]]"
| "py_split sep (c # cs) =
     (if c = sep then [] # py_split sep cs
      else (case py_split sep cs of [] \<Rightarrow> [[c]] | h # t \<Rightarrow> (c # h) # t))"

text \<open>
  \<^verbatim>\<open>str.replace(old, new)\<close> for a non-empty \<open>old\<close>: occurrences are replaced from the
  left, without overlap.
\<close>

function py_replace :: "string \<Rightarrow> string \<Rightarrow> string \<Rightarrow> string" where
  "py_replace old new s =
     (if s = [] \<or> old = [] then s
      else if take (length old) s = old then new @ py_replace old new (drop (length old) s)
      else hd s # py_replace old new (tl s))"
  by pat_completeness auto
termination
  by (relation "measure (\<lambda>(old, new, s). length s)") (auto simp: neq_Nil_conv)

declare py_replace.simps [simp del]

subsection \<open>The device and its collaborators\<close>

text \<open>
  The rounds call into modules that are not among the sources (\<^verbatim>\<open>chains\<close>,
  \<^verbatim>\<open>stash\<close>, \<^verbatim>\<open>descriptor\<close>, \<^verbatim>\<open>multisig\<close>, \<^verbatim>\<open>ngu\<close>, \<^verbatim>\<open>public_constants\<close>).
  A device gives these functions and constants; \<open>'n\<close> is the type of BIP-32 nodes.
  \<open>hd_deserialize\<close> and \<open>descriptor_parse\<close> are \<open>None\<close> when the call raises;
  \<open>hd_derive n i h\<close> is the node \<open>n\<close> after \<^verbatim>\<open>n.derive(i, h)\<close>; \<open>make_redeem_script\<close>
  is the function of that name in \<^verbatim>\<open>multisig\<close>.
\<close>

record descriptor =
  desc_M :: int
  desc_N :: int
  desc_keys :: "(nat \<times> string \<times> string) list"
  desc_addr_fmt :: int

record 'n device =
  prims :: primitives
  AF_P2WSH :: int
  AF_P2WSH_P2SH :: int
  xfp :: nat
  xfp2str :: "nat \<Rightarrow> string"
  b44_cointype :: nat
  ext_key_prefix :: string
  derive_path :: "string \<Rightarrow> 'n"
  serialize_public :: "'n \<Rightarrow> string"
  hash_message :: "bytes \<Rightarrow> bytes"
  privkey :: "'n \<Rightarrow> bytes"
  secp256k1_sign :: "bytes \<Rightarrow> bytes \<Rightarrow> bytes"
  b2a_base64 :: "bytes \<Rightarrow> string"
  hd_deserialize :: "string \<Rightarrow> 'n option"
  hd_derive :: "'n \<Rightarrow> nat \<Rightarrow> bool \<Rightarrow> 'n"
  make_redeem_script :: "int \<Rightarrow> 'n list \<Rightarrow> nat \<Rightarrow> bytes"
  p2sh_address :: "int \<Rightarrow> bytes \<Rightarrow> string"
  descriptor_parse :: "string \<Rightarrow> descriptor option"
  append_checksum :: "string \<Rightarrow> string"

text \<open>
  What a round leaves behind: the settings, the uses of a private key for signing
  (key and digest), and the data handed to NFC or written to a card.
\<close>

datatype payload = Text string | Binary bytes

datatype export_event = NfcShare string | FileWrite string payload

record world =
  settings :: store
  signatures :: "(bytes \<times> bytes) list"
  exported :: "export_event list"

datatype write_outcome = WriteOk | CardMissing | WriteFailed

text \<open>
  How a round returned, when it raised nothing: the user left it at a prompt, writing
  the files failed, or it ran to its end.
\<close>

datatype round_outcome = Cancelled | WriteAborted | Completed

text \<open>A call of \<^verbatim>\<open>BSMSSettings\<close> at the end of a round.\<close>

definition save_session ::
  "(store \<Rightarrow> (error + unit) \<times> store) \<Rightarrow> world \<Rightarrow> (error + round_outcome) \<times> world" where
  "save_session f w =
     (case f (settings w) of
        (Inl e, s) \<Rightarrow> (Inl e, w\<lparr>settings := s\<rparr>)
      | (Inr u, s) \<Rightarrow> (Inr Completed, w\<lparr>settings := s\<rparr>))"

subsection \<open>Coordinator round 1\<close>

text \<open>
  The answers of the user and of the environment to \<^verbatim>\<open>bsms_coordinator_round1\<close>, in
  the order it asks: N, M, the address format, the encryption type, the random bytes
  (\<open>cr1_random i n\<close> is what the \<open>i\<close>-th call \<^verbatim>\<open>ngu.random.bytes(n)\<close> returns), the
  answer to the summary, whether there is an export prompt and its answer, and how
  writing the token files ends.
\<close>

record cr1_answers =
  cr1_N :: int
  cr1_M :: int
  cr1_addr_fmt :: char
  cr1_encryption_type :: char
  cr1_random :: "nat \<Rightarrow> nat \<Rightarrow> bytes"
  cr1_summary :: char
  cr1_export_prompt :: bool
  cr1_export :: char
  cr1_write :: write_outcome

definition summary_tokens :: "string list \<Rightarrow> string" where
  "summary_tokens tokens =
     concat (map (\<lambda>(i, token).
                    (if i = 0 then [] else nl @ nl) @ py_str_nat (Suc i) @ ''. '' @ token)
               (zip [0..<length tokens] tokens))"

definition cr1_tokens :: "cr1_answers \<Rightarrow> string list" where
  "cr1_tokens a =
     (if cr1_encryption_type a = CHR ''2''
      then map (\<lambda>i. b2a_hex (cr1_random a i 16)) [0..<nat (cr1_N a)]
      else if cr1_encryption_type a = CHR ''1'' then [b2a_hex (cr1_random a 0 8)]
      else [])"

text \<open>The export of the tokens and the final \<^verbatim>\<open>coordinator_add\<close>.\<close>

definition cr1_export_and_save ::
  "'n device \<Rightarrow> cr1_answers \<Rightarrow> int \<Rightarrow> string list \<Rightarrow> world
     \<Rightarrow> (error + round_outcome) \<times> world" where
  "cr1_export_and_save dev a addr_fmt tokens w =
     (let ask = (tokens \<noteq> [] \<and> cr1_export_prompt a);
          ch = cr1_export a
      in if ask \<and> ch \<noteq> CHR ''3'' \<and> ch \<noteq> CHR ''2'' \<and> ch \<noteq> CHR ''1'' then (Inr Cancelled, w)
         else
           (let nfc = (ask \<and> ch = CHR ''3'');
                w1 = (if nfc then w\<lparr>exported := exported w @ [NfcShare (summary_tokens tokens)]\<rparr>
                      else w);
                to_files = (tokens \<noteq> [] \<and> \<not> nfc)
            in if to_files \<and> cr1_write a \<noteq> WriteOk then (Inr WriteAborted, w1)
               else
                 (let w2 = (if to_files
                            then w1\<lparr>exported := exported w1 @
                                   map (\<lambda>token. FileWrite (''bsms_'' @ take 4 token @ ''.token'')
                                                  (Text token)) tokens\<rparr>
                            else w1)
                  in save_session
                       (coordinator_add
                          (CoordinatorSession (cr1_M a) (cr1_N a) addr_fmt
                             [cr1_encryption_type a] tokens)) w2)))"

text \<open>\<^verbatim>\<open>bsms_coordinator_round1\<close>\<close>

definition bsms_coordinator_round1 ::
  "'n device \<Rightarrow> cr1_answers \<Rightarrow> world \<Rightarrow> (error + round_outcome) \<times> world" where
  "bsms_coordinator_round1 dev a w =
     (if \<not> (2 \<le> cr1_N a \<and> cr1_N a \<le> MAX_SIGNERS) then (Inl SignersOutOfRange, w)
      else if \<not> (1 \<le> cr1_M a \<and> cr1_M a \<le> cr1_N a) then (Inl ThresholdOutOfRange, w)
      else if cr1_addr_fmt a \<noteq> CHR ''y'' \<and> cr1_addr_fmt a \<noteq> CHR ''1'' then (Inr Cancelled, w)
      else if \<not> List.member ''123'' (cr1_encryption_type a) then (Inr Cancelled, w)
      else if cr1_summary a \<noteq> CHR ''y'' then (Inr Cancelled, w)
      else cr1_export_and_save dev a
             (if cr1_addr_fmt a = CHR ''y'' then AF_P2WSH dev else AF_P2WSH_P2SH dev)
             (cr1_tokens a) w)"

subsection \<open>Signer round 1\<close>

text \<open>
  The answers to \<^verbatim>\<open>bsms_signer_round1\<close> from the validation of the token on:
  the token as it was typed, read or converted, the answer to "Is token correct?",
  the address format, the account number, whether a custom description is chosen and
  the description typed, the export prompt and its answer, and how writing the file
  ends.
\<close>

record sr1_answers =
  sr1_token :: string
  sr1_token_correct :: char
  sr1_addr_fmt :: char
  sr1_acct_num :: nat
  sr1_description_choice :: char
  sr1_custom_description :: string
  sr1_export_prompt :: bool
  sr1_export :: char
  sr1_write :: write_outcome

text \<open>\<^verbatim>\<open>signer_data_round1\<close>\<close>

definition signer_data_round1 ::
  "'n device \<Rightarrow> string \<Rightarrow> string \<Rightarrow> string \<Rightarrow> bytes option \<Rightarrow> string" where
  "signer_data_round1 dev token_hex desc_type_key key_description sig_bytes =
     (let result = BSMS_VERSION @ nl @ token_hex @ nl @ desc_type_key @ nl @ key_description
      in case sig_bytes of
           None \<Rightarrow> result
         | Some sg \<Rightarrow> result @ nl @ py_strip (b2a_base64 dev sg))"

definition sr1_pth :: "'n device \<Rightarrow> sr1_answers \<Rightarrow> string" where
  "sr1_pth dev a =
     (if sr1_addr_fmt a = CHR ''y''
      then ''m/129'' @ [CHR 0x27] @ ''/'' @ py_str_nat (b44_cointype dev) @ [CHR 0x27] @ ''/'' @
           py_str_nat (sr1_acct_num a) @ [CHR 0x27]
      else ''m/48'' @ [CHR 0x27] @ ''/'' @ py_str_nat (b44_cointype dev) @ [CHR 0x27] @ ''/'' @
           py_str_nat (sr1_acct_num a) @ [CHR 0x27] @ ''/'' @
           (if sr1_addr_fmt a = CHR ''1'' then ''2'' else ''1'') @ [CHR 0x27])"

definition sr1_key_description :: "sr1_answers \<Rightarrow> string" where
  "sr1_key_description a =
     (if sr1_description_choice a = CHR ''1'' then sr1_custom_description a
      else ''ColdCard signer'' @
           (if sr1_addr_fmt a = CHR ''y'' then []
            else if sr1_addr_fmt a = CHR ''1'' then '' P2WSH'' else '' P2SH-P2WSH'') @
           '' account '' @ py_str_nat (sr1_acct_num a))"

text \<open>The export of the round-1 data and the final \<^verbatim>\<open>signer_add\<close>.\<close>

definition sr1_export_and_save ::
  "'n device \<Rightarrow> sr1_answers \<Rightarrow> string \<Rightarrow> bytes option \<Rightarrow> payload \<Rightarrow> world
     \<Rightarrow> (error + round_outcome) \<times> world" where
  "sr1_export_and_save dev a token_hex encryption_key result_data w =
     (let ask = sr1_export_prompt a;
          ch = sr1_export a
      in if ask \<and> ch \<noteq> CHR ''3'' \<and> ch \<noteq> CHR ''2'' \<and> ch \<noteq> CHR ''1'' then (Inr Cancelled, w)
         else
           (let nfc = (ask \<and> ch = CHR ''3'');
                w1 = (if nfc
                      then w\<lparr>exported := exported w @
                             [NfcShare (case result_data of
                                          Binary b \<Rightarrow> b2a_hex b | Text t \<Rightarrow> t)]\<rparr>
                      else w)
            in if \<not> nfc \<and> sr1_write a \<noteq> WriteOk then (Inr WriteAborted, w1)
               else
                 (let basename = (if length token_hex = 32
                                  then ''bsms_sr1_'' @ take 4 token_hex else ''bsms_sr1'');
                      f_pattern = (if encryption_key = None then basename @ ''.txt''
                                   else basename @ ''.dat'');
                      w2 = (if \<not> nfc
                            then w1\<lparr>exported := exported w1 @
                                   [FileWrite f_pattern
                                      (Binary (case result_data of
                                                 Binary b \<Rightarrow> b
                                               | Text t \<Rightarrow> utf8_encode (prims dev) t))]\<rparr>
                            else w1)
                  in save_session (signer_add token_hex) w2)))"

text \<open>The block under \<^verbatim>\<open>stash.SensitiveValues\<close>, the key derivation and the envelope.\<close>

definition sr1_sign_and_encrypt ::
  "'n device \<Rightarrow> sr1_answers \<Rightarrow> string \<Rightarrow> string \<Rightarrow> world
     \<Rightarrow> (error + round_outcome) \<times> world" where
  "sr1_sign_and_encrypt dev a token_hex key_description w =
     (let dd = sr1_pth dev a;
          node = derive_path dev dd;
          ext_key = serialize_public dev node;
          desc_type_key = ''['' @ xfp2str dev (xfp dev) @ drop 1 dd @ '']'' @ ext_key;
          msg = signer_data_round1 dev token_hex desc_type_key key_description None;
          digest = hash_message dev (utf8_encode (prims dev) msg);
          sk = privkey dev node;
          sg = secp256k1_sign dev sk digest;
          w1 = w\<lparr>signatures := signatures w @ [(sk, digest)]\<rparr>;
          result_text = signer_data_round1 dev token_hex desc_type_key key_description (Some sg)
      in case key_derivation_function (prims dev) token_hex of
           Inl e \<Rightarrow> (Inl e, w1)
         | Inr encryption_key \<Rightarrow>
             sr1_export_and_save dev a token_hex encryption_key
               (case encryption_key of
                  None \<Rightarrow> Text result_text
                | Some k \<Rightarrow>
                    if k = [] then Text result_text
                    else Binary (bsms_encrypt (prims dev) k token_hex result_text))
               w1)"

text \<open>\<^verbatim>\<open>bsms_signer_round1\<close>, from \<^verbatim>\<open>validate_token(token_hex)\<close> on.\<close>

definition bsms_signer_round1 ::
  "'n device \<Rightarrow> sr1_answers \<Rightarrow> world \<Rightarrow> (error + round_outcome) \<times> world" where
  "bsms_signer_round1 dev a w =
     (case validate_token (sr1_token a) of
        Inl e \<Rightarrow> (Inl e, w)
      | Inr u \<Rightarrow>
          (let token_hex = normalize_token (sr1_token a)
           in if sr1_token_correct a \<noteq> CHR ''y'' then (Inr Cancelled, w)
              else if sr1_addr_fmt a \<noteq> CHR ''y'' \<and> sr1_addr_fmt a \<noteq> CHR ''1'' \<and>
                      sr1_addr_fmt a \<noteq> CHR ''2'' then (Inr Cancelled, w)
              else
                (let key_description = sr1_key_description a;
                     key_description_len = length key_description
                 in if \<not> key_description_len \<le> 80
                    then (Inl (DescriptionTooLong key_description_len), w)
                    else sr1_sign_and_encrypt dev a token_hex key_description w)))"

subsection \<open>Signer round 2\<close>

text \<open>The loop over the keys of the descriptor: own keys and the nodes of all keys.\<close>

fun sr2_collect ::
  "'n device \<Rightarrow> (nat \<times> string \<times> string) list \<Rightarrow> error + ((string \<times> string) list \<times> 'n list)" where
  "sr2_collect dev [] = Inr ([], [])"
| "sr2_collect dev ((x, deriv_path, ext_key) # keys) =
     (if \<not> startswith ext_key (ext_key_prefix dev) then Inl ExtKeyPrefixMismatch
      else case hd_deserialize dev ext_key of
             None \<Rightarrow> Inl DeserializeError
           | Some node \<Rightarrow>
               (case sr2_collect dev keys of
                  Inl e \<Rightarrow> Inl e
                | Inr (my_keys, nodes) \<Rightarrow>
                    Inr ((if x = xfp dev then [(deriv_path, ext_key)] else []) @ my_keys,
                         node # nodes)))"

text \<open>
  From the check of the version to the check of the own key: the descriptor text, the
  wallet name, the parsed descriptor, the nodes of its keys and the address line.
\<close>

definition sr2_parse_and_locate ::
  "'n device \<Rightarrow> string \<Rightarrow> error + (string \<times> string \<times> descriptor \<times> 'n list \<times> string)" where
  "sr2_parse_and_locate dev desc_template_data =
     (if \<not> startswith desc_template_data BSMS_VERSION then Inl IncompatibleVersion
      else case py_split (CHR 0x0A) desc_template_data of
        [version, desc_template, pth_restrictions, addr] \<Rightarrow>
          if pth_restrictions \<noteq> ALLOWED_PATH_RESTRICTIONS then Inl PathRestrictionsNotAllowed
          else
            (let desc0 = py_replace ''/**'' ''/0/*'' desc_template;
                 desc = (if \<not> List.member desc0 (CHR ''#'') then append_checksum dev desc0
                         else desc0);
                 ms_name = ''bsms_'' @ drop (length desc - 4) desc
             in case descriptor_parse dev desc of
                  None \<Rightarrow> Inl DescriptorParseError
                | Some desc_obj \<Rightarrow>
                    if desc_N desc_obj = 0 then Inl ZeroDivisionError
                    else
                      (case sr2_collect dev (desc_keys desc_obj) of
                         Inl e \<Rightarrow> Inl e
                       | Inr (my_keys, nodes) \<Rightarrow>
                           if \<not> length my_keys \<le> 1 then Inl (MultipleOwnKeys (length my_keys))
                           else
                             (case my_keys of
                                [] \<Rightarrow> Inl OwnKeyMissing
                              | (deriv_path, desc_ext_key) # rest \<Rightarrow>
                                  if serialize_public dev (derive_path dev deriv_path)
                                       \<noteq> desc_ext_key
                                  then Inl OwnKeyMismatch
                                  else Inr (desc, ms_name, desc_obj, nodes, addr))))
      | _ \<Rightarrow> Inl UnpackError)"

text \<open>The first address: every node derived at index 0, the script, the address.\<close>

definition sr2_first_address :: "'n device \<Rightarrow> descriptor \<Rightarrow> 'n list \<Rightarrow> string" where
  "sr2_first_address dev desc_obj nodes =
     (let nodes0 = map (\<lambda>node. hd_derive dev node 0 False) nodes;
          script = make_redeem_script dev (desc_M desc_obj) nodes0 0
      in p2sh_address dev (desc_addr_fmt desc_obj) script)"

text \<open>
  \<^verbatim>\<open>bsms_signer_round2\<close>, from the validation of the text \<^verbatim>\<open>desc_template_data\<close> on
  (the text read, and decrypted when the token is not the sentinel). The result is
  what is handed to \<^verbatim>\<open>maybe_enroll_xpub\<close>: the descriptor, the name and the index of
  the session.
\<close>

definition bsms_signer_round2 ::
  "'n device \<Rightarrow> nat \<Rightarrow> string \<Rightarrow> error + (string \<times> string \<times> nat)" where
  "bsms_signer_round2 dev bsms_settings_index desc_template_data =
     (case sr2_parse_and_locate dev desc_template_data of
        Inl e \<Rightarrow> Inl e
      | Inr (desc, ms_name, desc_obj, nodes, addr) \<Rightarrow>
          (let calc_addr = sr2_first_address dev desc_obj nodes
           in if calc_addr \<noteq> addr then Inl (AddressMismatch calc_addr addr)
              else Inr (desc, ms_name, bsms_settings_index)))"

subsection \<open>A device for evaluating the rounds\<close>

text \<open>
  An instance of the device whose nodes are strings: small stand-ins for the
  collaborators, used only to run the rounds on concrete inputs.
\<close>

definition example_descriptor :: descriptor where
  "example_descriptor =
     \<lparr>desc_M = 2, desc_N = 2,
      desc_keys = [(1, ''m/48h/1h/0h/2h'', ''tpubA''), (2, ''m/48h/1h/0h/2h'', ''tpubB'')],
      desc_addr_fmt = 14\<rparr>"

definition example_device :: "string device" where
  "example_device =
     \<lparr>prims = example_primitives,
      AF_P2WSH = 14,
      AF_P2WSH_P2SH = 26,
      xfp = 1,
      xfp2str = (\<lambda>n. ''0000000'' @ py_str_nat n),
      b44_cointype = 1,
      ext_key_prefix = ''tpub'',
      derive_path = (\<lambda>path. ''A''),
      serialize_public = (\<lambda>node. ''tpub'' @ node),
      hash_message = (\<lambda>m. take 32 (m @ replicate 32 0)),
      privkey = (\<lambda>node. map of_char node),
      secp256k1_sign = (\<lambda>sk digest. take 65 (digest @ sk @ replicate 65 0)),
      b2a_base64 = (\<lambda>b. b2a_hex b @ nl),
      hd_deserialize = (\<lambda>ext_key. if length ext_key < 5 then None else Some (drop 4 ext_key)),
      hd_derive = (\<lambda>node i h. node @ ''/'' @ py_str_nat i),
      make_redeem_script = (\<lambda>M nodes i. map of_char (concat nodes)),
      p2sh_address = (\<lambda>af script. b2a_hex script),
      descriptor_parse = (\<lambda>desc. if startswith desc ''wsh(sortedmulti(''
                                  then Some example_descriptor else None),
      append_checksum = (\<lambda>desc. desc @ ''#00000000'')\<rparr>"

text \<open>A round-2 payload of the coordinator with the given address line.\<close>

definition example_round2_data :: "string \<Rightarrow> string" where
  "example_round2_data addr =
     ''BSMS 1.0'' @ nl @ ''wsh(sortedmulti(2,A/**,B/**))'' @ nl @ ''/0/*,/1/*'' @ nl @ addr"

definition example_world :: world where
  "example_world = \<lparr>settings = example_store [], signatures = [], exported = []\<rparr>"

text \<open>Answers to signer round 1 with the given token and a custom description.\<close>

definition example_sr1_answers :: "string \<Rightarrow> string \<Rightarrow> sr1_answers" where
  "example_sr1_answers token description =
     \<lparr>sr1_token = token,
      sr1_token_correct = CHR ''y'',
      sr1_addr_fmt = CHR ''1'',
      sr1_acct_num = 0,
      sr1_description_choice = CHR ''1'',
      sr1_custom_description = description,
      sr1_export_prompt = True,
      sr1_export = CHR ''3'',
      sr1_write = WriteOk\<rparr>"

text \<open>
  A store whose \<^verbatim>\<open>bsms\<close> entry refers to objects that exist: the dict and its lists
  were allocated before \<open>next_ref\<close>.
\<close>

definition store_wf :: "store \<Rightarrow> bool" where
  "store_wf s =
     (case current_bsms s of
        None \<Rightarrow> True
      | Some d \<Rightarrow> d < next_ref s \<and> list_all (\<lambda>(k, l). l < next_ref s) (dict_objs s d))"

section \<open>Token validation\<close>

lemma hex_rest_all_hex: "list_all is_hex_char s \<Longrightarrow> hex_rest s"
  by (induction s rule: hex_rest.induct) (auto simp: is_hex_char_def split: list.splits)

lemma hex_char_not_space: "is_hex_char c \<Longrightarrow> \<not> is_space_char c"
  by (auto simp: is_hex_char_def is_space_char_def Let_def)

lemma dropWhile_none: "list_all (\<lambda>c. \<not> P c) s \<Longrightarrow> dropWhile P s = s"
  by (cases s) auto

lemma hex_string_no_space: "is_hex_string s \<Longrightarrow> list_all (\<lambda>c. \<not> is_space_char c) s"
  by (induction s) (auto simp: is_hex_string_def hex_char_not_space)

lemma py_strip_hex: "is_hex_string s \<Longrightarrow> py_strip s = s"
proof -
  assume h: "is_hex_string s"
  then have a: "dropWhile is_space_char s = s"
    by (simp add: dropWhile_none hex_string_no_space)
  from h have "list_all (\<lambda>c. \<not> is_space_char c) (rev s)"
    using hex_string_no_space [of s] by (simp add: list_all_iff)
  then have "dropWhile is_space_char (rev s) = rev s"
    by (rule dropWhile_none)
  with a show ?thesis by (simp add: py_strip_def)
qed

lemma strip_sign_hex: "is_hex_string s \<Longrightarrow> strip_sign s = s"
  by (cases s) (auto simp: strip_sign_def is_hex_string_def is_hex_char_def)

lemma strip_base16_prefix_hex: "is_hex_string s \<Longrightarrow> strip_base16_prefix s = s"
proof (cases s)
  case Nil
  then show ?thesis by (simp add: strip_base16_prefix_def)
next
  case (Cons a t)
  assume h: "is_hex_string s"
  show ?thesis
  proof (cases t)
    case Nil
    with Cons show ?thesis by (simp add: strip_base16_prefix_def)
  next
    case (Cons b u)
    with h \<open>s = a # t\<close> have "is_hex_char b" by (simp add: is_hex_string_def)
    then have "b \<noteq> CHR ''x'' \<and> b \<noteq> CHR ''X''" by (auto simp: is_hex_char_def)
    with Cons \<open>s = a # t\<close> show ?thesis by (simp add: strip_base16_prefix_def)
  qed
qed

text \<open>\<^verbatim>\<open>int(s, 16)\<close> returns on every non-empty string of hexadecimal digits.\<close>

lemma py_int16_ok_hex: "is_hex_string s \<Longrightarrow> s \<noteq> [] \<Longrightarrow> py_int16_ok s"
  by (cases s)
     (auto simp: py_int16_ok_def py_strip_hex strip_sign_hex strip_base16_prefix_hex hex_body_def
        is_hex_string_def hex_rest_all_hex)

lemma validate_token_iff:
  "validate_token T = Inr () \<longleftrightarrow>
     T = ''00'' \<or> (py_int16_ok T \<and> (length T = 16 \<or> length T = 32))"
  by (auto simp: validate_token_def)

text \<open>Every string of 16 or 32 hexadecimal digits is a valid token.\<close>

lemma validate_token_hex_ok:
  "is_hex_string T \<Longrightarrow> length T = 16 \<or> length T = 32 \<Longrightarrow> validate_token T = Inr ()"
  using py_int16_ok_hex [of T] by (cases "T = []") (auto simp: validate_token_def)

text \<open>A string of hexadecimal digits of any other length is rejected.\<close>

lemma validate_token_hex_length:
  "is_hex_string T \<Longrightarrow> T \<noteq> ''00'' \<Longrightarrow>
     validate_token T = Inr () \<longleftrightarrow> length T = 16 \<or> length T = 32"
  using validate_token_hex_ok [of T] by (auto simp: validate_token_iff)

text \<open>
  C3. The claim: a token other than \<^verbatim>\<open>"00"\<close> is valid if and only if it consists of
  hexadecimal characters only and has length 16 or 32. The code checks the characters
  with \<^verbatim>\<open>int(token_hex, 16)\<close>, which also accepts a base prefix, and measures the
  length of the whole string: the 16 characters \<^verbatim>\<open>0x12345678901234\<close> (what the entry
  of the decimal 5124095575331380 gives) are accepted although they are not all
  hexadecimal; normalised, the token has 14 digits (56 bits).
\<close>

theorem validate_token_accepts_prefixed_14_digits:
  "validate_token ''0x12345678901234'' = Inr () \<and>
   \<not> is_hex_string ''0x12345678901234'' \<and>
   normalize_token ''0x12345678901234'' = ''12345678901234''"
  by (simp add: validate_token_def py_int16_ok_def py_strip_def is_space_char_def strip_sign_def
      strip_base16_prefix_def hex_body_def is_hex_char_def is_hex_string_def normalize_token_def)

section \<open>Settings write-back\<close>

lemmas store_defs = signer_add_def signer_delete_def coordinator_add_def coordinator_delete_def
  BSMSSettings_add_def BSMSSettings_delete_def settings_get_bsms_def dict_copy_def
  BSMS_SIGNER_SETTINGS_def BSMS_COORD_SETTINGS_def settings_set_bsms_def BSMSSettings_save_def
  settings_save_def settings_value_def dict_value_def get_signers_def get_coordinators_def
  BSMSSettings_get_def

lemma map_of_dict_value:
  "map_of (dict_value s d) who = map_option (list_objs s) (map_of (dict_objs s d) who)"
  by (simp add: dict_value_def map_of_map [unfolded comp_def, THEN fun_cong])

lemma py_pop_out_of_range: "0 \<le> i \<Longrightarrow> int (length xs) \<le> i \<Longrightarrow> py_pop xs i = None"
  by (simp add: py_pop_def)

text \<open>
  C2. The claim: when the save fails, the sub-map of before the operation is restored
  and nothing of the operation is persisted. The snapshot is a \<^verbatim>\<open>dict.copy()\<close>, which
  shares the session lists with the dict that \<^verbatim>\<open>add\<close> and \<^verbatim>\<open>delete\<close> then change in
  place. On a device that holds one signer session: when the first save fails and the
  second succeeds, \<^verbatim>\<open>signer_add\<close> raises \<^verbatim>\<open>BSMSOutOfSpace\<close> and the new session is
  saved; when both saves fail, the saved value is the old one and the in-memory
  settings hold the new session; \<^verbatim>\<open>signer_delete\<close> saves the deletion likewise.
\<close>

theorem failed_save_keeps_the_change:
  "fst (signer_add ''00'' (example_store [False, True])) = Inl BSMSOutOfSpace \<and>
   nvram_bsms (example_store [False, True]) =
     Some [(''s'', [SignerSession ''a1b2c3d4e5f60718''])] \<and>
   nvram_bsms (snd (signer_add ''00'' (example_store [False, True]))) =
     Some [(''s'', [SignerSession ''a1b2c3d4e5f60718'', SignerSession ''00''])] \<and>
   fst (signer_add ''00'' (example_store [False, False])) = Inl BSMSOutOfSpace \<and>
   get_signers (example_store [False, False]) = [SignerSession ''a1b2c3d4e5f60718''] \<and>
   get_signers (snd (signer_add ''00'' (example_store [False, False]))) =
     [SignerSession ''a1b2c3d4e5f60718'', SignerSession ''00''] \<and>
   fst (signer_delete 0 (example_store [False, True])) = Inl BSMSOutOfSpace \<and>
   nvram_bsms (snd (signer_delete 0 (example_store [False, True]))) = Some [(''s'', [])]"
  by (simp add: example_store_def store_defs py_pop_def)

text \<open>Removal at an index past the end of the list under any key.\<close>

lemma BSMSSettings_delete_out_of_range:
  assumes "0 \<le> index"
    and "int (length (case map_of (BSMSSettings_get s) who of None \<Rightarrow> [] | Some xs \<Rightarrow> xs))
           \<le> index"
  shows "unchanged_by s (BSMSSettings_delete who index s)"
proof (cases "current_bsms s")
  case None
  then show ?thesis
    by (simp add: unchanged_by_def BSMSSettings_delete_def settings_get_bsms_def dict_copy_def
        settings_value_def)
next
  case (Some d)
  show ?thesis
  proof (cases "map_of (dict_objs s d) who")
    case None
    with Some show ?thesis
      by (simp add: unchanged_by_def BSMSSettings_delete_def settings_get_bsms_def dict_copy_def
          settings_value_def dict_value_def)
  next
    case (Some l)
    with \<open>current_bsms s = Some d\<close> assms(2)
    have "int (length (list_objs s l)) \<le> index"
      by (simp add: BSMSSettings_get_def settings_value_def map_of_dict_value)
    then have "py_pop (list_objs s l) index = None"
      using assms(1) by (simp add: py_pop_out_of_range)
    with Some \<open>current_bsms s = Some d\<close> show ?thesis
      by (simp add: unchanged_by_def BSMSSettings_delete_def settings_get_bsms_def dict_copy_def
          settings_value_def dict_value_def)
  qed
qed

text \<open>
  C10. For every settings store and every index that is not negative and not smaller
  than the length of the signer list (of the coordinator list), \<^verbatim>\<open>signer_delete\<close>
  (\<^verbatim>\<open>coordinator_delete\<close>) returns normally, leaves the saved and the in-memory
  settings as they were and calls no save.
\<close>

theorem delete_out_of_range_is_noop:
  assumes "0 \<le> index"
  shows "(int (length (get_signers s)) \<le> index \<longrightarrow>
            unchanged_by s (signer_delete index s)) \<and>
         (int (length (get_coordinators s)) \<le> index \<longrightarrow>
            unchanged_by s (coordinator_delete index s))"
  using assms BSMSSettings_delete_out_of_range [of index s BSMS_SIGNER_SETTINGS]
    BSMSSettings_delete_out_of_range [of index s BSMS_COORD_SETTINGS]
  by (simp add: get_signers_def get_coordinators_def signer_delete_def coordinator_delete_def)

theorem delete_out_of_range_is_noop_witness:
  "(0::int) \<le> 1 \<and>
   int (length (get_signers (example_store [False]))) \<le> 1 \<and>
   unchanged_by (example_store [False]) (signer_delete 1 (example_store [False])) \<and>
   int (length (get_coordinators (example_store [False]))) \<le> 1 \<and>
   unchanged_by (example_store [False]) (coordinator_delete 1 (example_store [False]))"
proof -
  have a: "int (length (get_signers (example_store [False]))) \<le> 1"
    by (simp add: example_store_def store_defs)
  have b: "int (length (get_coordinators (example_store [False]))) \<le> 1"
    by (simp add: example_store_def store_defs)
  show ?thesis
    using a b delete_out_of_range_is_noop [of 1 "example_store [False]"] by simp
qed

section \<open>Key derivation and the envelope\<close>

lemma example_primitives_sound: "sound_primitives example_primitives"
  by (auto simp: sound_primitives_def example_primitives_def comp_def xor.assoc)

lemma hex_val_hex_char: "is_hex_char c \<Longrightarrow> \<exists>x. hex_val c = Some x \<and> x < 16"
  by (auto simp: is_hex_char_def hex_val_def Let_def)

text \<open>\<^verbatim>\<open>a2b_hex\<close> returns on every even-length string of hexadecimal digits.\<close>

lemma a2b_hex_hex_string:
  "is_hex_string T \<Longrightarrow> even (length T) \<Longrightarrow>
     \<exists>salt. a2b_hex T = Some salt \<and> 2 * length salt = length T"
proof (induction T rule: a2b_hex.induct)
  case 1
  then show ?case by simp
next
  case (2 c)
  then show ?case by simp
next
  case (3 a b cs)
  from "3.prems" have ha: "is_hex_char a" and hb: "is_hex_char b" and hcs: "is_hex_string cs"
    by (simp_all add: is_hex_string_def)
  from ha obtain x where x: "hex_val a = Some x" using hex_val_hex_char by blast
  from hb obtain y where y: "hex_val b = Some y" using hex_val_hex_char by blast
  from "3.prems" have "even (length cs)" by simp
  with "3.IH" [OF x y hcs] obtain r where "a2b_hex cs = Some r" "2 * length r = length cs"
    by blast
  with x y show ?case by simp
qed

lemma bsms_encrypt_unfold:
  "bsms_encrypt p K T pt =
     hmac_sha256 p (sha256s p K) (utf8_encode p (T @ pt)) @
     aes_ctr p K (take 16 (hmac_sha256 p (sha256s p K) (utf8_encode p (T @ pt))))
       (utf8_encode p pt)"
  by (simp add: bsms_encrypt_def msg_auth_code_def hmac_key_def Let_def)

text \<open>
  C5. For every key \<open>K\<close>, token \<open>T\<close> and plaintext \<open>pt\<close> that begins with
  \<^verbatim>\<open>BSMS\<close>, decrypting the envelope of \<open>pt\<close> under \<open>K\<close> and \<open>T\<close> returns \<open>pt\<close>;
  the primitives are any with the properties of \<^const>\<open>sound_primitives\<close>, and
  \<open>pt\<close> any string that the codec encodes and decodes back.
\<close>

theorem envelope_round_trip:
  assumes "sound_primitives p"
    and "utf8_decode p (utf8_encode p pt) = Some pt"
    and "startswith pt ''BSMS''"
  shows "bsms_decrypt p K (bsms_encrypt p K T pt) = pt"
proof -
  define mac where "mac = msg_auth_code p (hmac_key p K) T pt"
  have len: "length mac = 32"
    using assms(1) by (simp add: mac_def msg_auth_code_def sound_primitives_def Let_def)
  have inv: "aes_ctr p K (take 16 mac) (aes_ctr p K (take 16 mac) (utf8_encode p pt)) =
      utf8_encode p pt"
    using assms(1) by (simp add: sound_primitives_def)
  have enc: "bsms_encrypt p K T pt = mac @ aes_ctr p K (take 16 mac) (utf8_encode p pt)"
    by (simp add: bsms_encrypt_def mac_def Let_def)
  show ?thesis
    using len inv assms(2,3) by (simp add: enc bsms_decrypt_def Let_def)
qed

theorem envelope_round_trip_witness:
  "sound_primitives example_primitives \<and>
   utf8_decode example_primitives (utf8_encode example_primitives ''BSMS 1.0'') =
     Some ''BSMS 1.0'' \<and>
   startswith ''BSMS 1.0'' ''BSMS'' \<and>
   bsms_decrypt example_primitives [1, 2, 3]
     (bsms_encrypt example_primitives [1, 2, 3] ''00'' ''BSMS 1.0'') = ''BSMS 1.0''"
proof -
  have "map (\<lambda>b. char_of (unat b)) (map of_char ''BSMS 1.0'' :: 8 word list) = ''BSMS 1.0''"
    by code_simp
  then have a: "utf8_decode example_primitives (utf8_encode example_primitives ''BSMS 1.0'') =
      Some ''BSMS 1.0''"
    by (simp add: example_primitives_def)
  have b: "startswith ''BSMS 1.0'' ''BSMS''"
    by (simp add: startswith_def)
  show ?thesis
    using example_primitives_sound a b
      envelope_round_trip [OF example_primitives_sound a b, of "[1, 2, 3]" "''00''"]
    by simp
qed

text \<open>
  C6. For every key and every input, \<^verbatim>\<open>bsms_decrypt\<close> fails (returns the empty
  string) exactly when the bytes recovered by the cipher, under the IV taken from the
  first 16 bytes of the input and from the bytes after the first 32, do not decode as
  UTF-8 or decode to a text that does not start with \<^verbatim>\<open>BSMS\<close>; otherwise it returns
  the decoded text. Nothing is recomputed over the recovered text: the result is the
  same under any other hash and HMAC functions, and two inputs that agree on their
  first 16 bytes and on the bytes after the first 32 decrypt alike.
\<close>

theorem decrypt_fails_exactly_on_bad_plaintext:
  "(bsms_decrypt p K data = [] \<longleftrightarrow>
      (case utf8_decode p (aes_ctr p K (take 16 data) (drop 32 data)) of
         None \<Rightarrow> True
       | Some pt \<Rightarrow> \<not> startswith pt ''BSMS'')) \<and>
   (\<forall>pt. utf8_decode p (aes_ctr p K (take 16 data) (drop 32 data)) = Some pt \<and>
         startswith pt ''BSMS'' \<longrightarrow> bsms_decrypt p K data = pt) \<and>
   bsms_decrypt (p\<lparr>hmac_sha256 := h, sha256s := g\<rparr>) K data = bsms_decrypt p K data \<and>
   (take 16 data = take 16 data' \<and> drop 32 data = drop 32 data' \<longrightarrow>
      bsms_decrypt p K data = bsms_decrypt p K data')"
proof -
  have iv: "take 16 (take 32 d) = take 16 d" for d :: bytes
    by (simp add: min_def)
  have nonempty: "startswith pt ''BSMS'' \<Longrightarrow> pt \<noteq> []" for pt
    by (auto simp: startswith_def)
  show ?thesis
    using nonempty
    by (auto simp: bsms_decrypt_def Let_def iv split: option.splits)
qed

theorem decrypt_fails_exactly_on_bad_plaintext_witness:
  "utf8_decode example_primitives
     (aes_ctr example_primitives [1, 2, 3] (take 16 (replicate 32 7 @ [52, 37, 59, 37]))
        (drop 32 (replicate 32 7 @ [52, 37, 59, 37]))) = Some ''BSMS'' \<and>
   startswith ''BSMS'' ''BSMS'' \<and>
   bsms_decrypt example_primitives [1, 2, 3] (replicate 32 7 @ [52, 37, 59, 37]) = ''BSMS'' \<and>
   take 16 (replicate 32 7 @ [52, 37, 59, 37 :: byte]) =
     take 16 (replicate 16 7 @ replicate 16 0 @ [52, 37, 59, 37]) \<and>
   drop 32 (replicate 32 7 @ [52, 37, 59, 37 :: byte]) =
     drop 32 (replicate 16 7 @ replicate 16 0 @ [52, 37, 59, 37]) \<and>
   bsms_decrypt example_primitives [1, 2, 3] (replicate 16 7 @ replicate 16 0 @ [52, 37, 59, 37]) =
     ''BSMS'' \<and>
   utf8_decode example_primitives
     (aes_ctr example_primitives [1, 2, 3] (take 16 (replicate 32 7 @ [52, 37, 59, 38]))
        (drop 32 (replicate 32 7 @ [52, 37, 59, 38]))) = Some ''BSMP'' \<and>
   \<not> startswith ''BSMP'' ''BSMS'' \<and>
   bsms_decrypt example_primitives [1, 2, 3] (replicate 32 7 @ [52, 37, 59, 38]) = []"
proof -
  let ?p = example_primitives
  let ?d = "replicate 32 7 @ [52, 37, 59, 37] :: bytes"
  let ?d' = "replicate 16 7 @ replicate 16 0 @ [52, 37, 59, 37] :: bytes"
  let ?e = "replicate 32 7 @ [52, 37, 59, 38] :: bytes"
  have x: "map (\<lambda>b. b XOR 118) [52, 37, 59, 37 :: byte] = [66, 83, 77, 83]"
    by simp
  have y: "map (\<lambda>b. char_of (unat b)) [66, 83, 77, 83 :: byte] = ''BSMS''"
    by code_simp
  have key: "sum_list [1, 2, 3 :: byte] + sum_list (replicate 16 (7 :: byte)) = 118"
    by (simp add: sum_list_replicate)
  have dec: "utf8_decode ?p (aes_ctr ?p [1, 2, 3] (take 16 ?d) (drop 32 ?d)) = Some ''BSMS''"
    using x y key by (simp add: example_primitives_def)
  have st: "startswith ''BSMS'' ''BSMS''"
    by (simp add: startswith_def)
  have x': "map (\<lambda>b. b XOR 118) [52, 37, 59, 38 :: byte] = [66, 83, 77, 80]"
    by simp
  have y': "map (\<lambda>b. char_of (unat b)) [66, 83, 77, 80 :: byte] = ''BSMP''"
    by code_simp
  have dec': "utf8_decode ?p (aes_ctr ?p [1, 2, 3] (take 16 ?e) (drop 32 ?e)) = Some ''BSMP''"
    using x' y' key by (simp add: example_primitives_def)
  have st': "\<not> startswith ''BSMP'' ''BSMS''"
    by (simp add: startswith_def)
  have iv: "take 16 ?d = take 16 ?d'"
    by simp
  have ct: "drop 32 ?d = drop 32 ?d'"
    by simp
  have one: "bsms_decrypt ?p [1, 2, 3] ?d = ''BSMS''"
    using decrypt_fails_exactly_on_bad_plaintext [of ?p "[1, 2, 3]" ?d] dec st by simp
  have two: "bsms_decrypt ?p [1, 2, 3] ?d' = bsms_decrypt ?p [1, 2, 3] ?d"
    using decrypt_fails_exactly_on_bad_plaintext [of ?p "[1, 2, 3]" ?d' _ _ ?d] iv ct by simp
  have three: "bsms_decrypt ?p [1, 2, 3] ?e = []"
    using decrypt_fails_exactly_on_bad_plaintext [of ?p "[1, 2, 3]" ?e] dec' st' by simp
  from dec st one iv ct two dec' st' three show ?thesis
    by simp
qed

text \<open>
  C7. The sentinel \<^verbatim>\<open>"00"\<close> gives no key. For every other token \<open>T\<close> that
  hex-decodes to the bytes \<open>salt\<close>, the key is the first 32 bytes of
  \<^verbatim>\<open>pbkdf2_sha512\<close> with the password \<^verbatim>\<open>"No SPOF"\<close> (its UTF-8 bytes), the salt
  \<open>salt\<close> and 2048 iterations; every token of 16 or 32 hexadecimal digits decodes so.
  The MAC key is the SHA-256 of the key, and the envelope is the HMAC-SHA-256 under the
  MAC key of the UTF-8 bytes of \<open>T\<close> followed by \<open>pt\<close>, then the cipher text under the IV
  made of the first 16 bytes of that HMAC. All of these are functions of their inputs.
\<close>

theorem key_and_iv_derivation:
  "key_derivation_function p ''00'' = Inr None \<and>
   (T \<noteq> ''00'' \<and> a2b_hex T = Some salt \<longrightarrow>
      key_derivation_function p T =
        Inr (Some (take 32 (pbkdf2_sha512 p (utf8_encode p ''No SPOF'') salt 2048)))) \<and>
   (is_hex_string T \<and> (length T = 16 \<or> length T = 32) \<longrightarrow>
      (\<exists>salt'. a2b_hex T = Some salt' \<and> 2 * length salt' = length T)) \<and>
   hmac_key p K = sha256s p K \<and>
   msg_auth_code p (hmac_key p K) T pt =
     hmac_sha256 p (sha256s p K) (utf8_encode p (T @ pt)) \<and>
   bsms_encrypt p K T pt =
     msg_auth_code p (hmac_key p K) T pt @
     aes_ctr p K (take 16 (msg_auth_code p (hmac_key p K) T pt)) (utf8_encode p pt)"
proof -
  have "is_hex_string T \<and> (length T = 16 \<or> length T = 32) \<longrightarrow>
      (\<exists>salt'. a2b_hex T = Some salt' \<and> 2 * length salt' = length T)"
    using a2b_hex_hex_string [of T] by auto
  then show ?thesis
    by (simp add: key_derivation_function_def hmac_key_def msg_auth_code_def bsms_encrypt_def
        Let_def)
qed

theorem key_and_iv_derivation_witness:
  "a2b_hex ''a1b2c3d4e5f60718'' = Some [161, 178, 195, 212, 229, 246, 7, 24] \<and>
   key_derivation_function example_primitives ''a1b2c3d4e5f60718'' =
     Inr (Some (take 32 (pbkdf2_sha512 example_primitives
       (utf8_encode example_primitives ''No SPOF'') [161, 178, 195, 212, 229, 246, 7, 24] 2048))) \<and>
   is_hex_string ''a1b2c3d4e5f60718'' \<and>
   length ''a1b2c3d4e5f60718'' = 16 \<and>
   (\<exists>salt'. a2b_hex ''a1b2c3d4e5f60718'' = Some salt' \<and>
      2 * length salt' = length ''a1b2c3d4e5f60718'')"
proof -
  have a: "a2b_hex ''a1b2c3d4e5f60718'' = Some [161, 178, 195, 212, 229, 246, 7, 24]"
    by (simp add: hex_val_def)
  have b: "''a1b2c3d4e5f60718'' \<noteq> ''00''"
    by simp
  have c: "is_hex_string ''a1b2c3d4e5f60718''"
    by (simp add: is_hex_string_def is_hex_char_def)
  have d: "length ''a1b2c3d4e5f60718'' = 16"
    by simp
  note t = key_and_iv_derivation [of example_primitives "''a1b2c3d4e5f60718''"
      "[161, 178, 195, 212, 229, 246, 7, 24]"]
  from t a b have k: "key_derivation_function example_primitives ''a1b2c3d4e5f60718'' =
     Inr (Some (take 32 (pbkdf2_sha512 example_primitives
       (utf8_encode example_primitives ''No SPOF'') [161, 178, 195, 212, 229, 246, 7, 24] 2048)))"
    by blast
  from t c d have e: "\<exists>salt'. a2b_hex ''a1b2c3d4e5f60718'' = Some salt' \<and>
      2 * length salt' = length ''a1b2c3d4e5f60718''"
    by blast
  from a k c d e show ?thesis
    by blast
qed

section \<open>The rounds\<close>

lemma BSMSSettings_save_result:
  "fst (BSMSSettings_save s orig) = Inr () \<or> fst (BSMSSettings_save s orig) = Inl BSMSOutOfSpace"
  by (auto simp: BSMSSettings_save_def Let_def split: prod.splits bool.splits)

lemma BSMSSettings_add_result:
  "fst (BSMSSettings_add who v s) = Inr () \<or> fst (BSMSSettings_add who v s) = Inl BSMSOutOfSpace"
  using BSMSSettings_save_result
  by (simp add: BSMSSettings_add_def Let_def split: prod.splits)

lemma save_session_result:
  assumes "\<And>s. fst (f s) = Inr () \<or> fst (f s) = Inl BSMSOutOfSpace"
  shows "fst (save_session f w) = Inr Completed \<or> fst (save_session f w) = Inl BSMSOutOfSpace"
  using assms [of "settings w"]
  by (auto simp: save_session_def split: prod.splits sum.splits)

lemma save_session_add_result:
  "fst (save_session (signer_add t) w) \<in> {Inr Completed, Inl BSMSOutOfSpace}"
  "fst (save_session (coordinator_add c) w) \<in> {Inr Completed, Inl BSMSOutOfSpace}"
  using save_session_result [of "signer_add t" w] save_session_result [of "coordinator_add c" w]
    BSMSSettings_add_result
  by (auto simp: signer_add_def coordinator_add_def)

lemma save_session_signatures: "signatures (snd (save_session f w)) = signatures w"
  by (auto simp: save_session_def split: prod.splits sum.splits)

subsection \<open>Coordinator round 1\<close>

lemma cr1_export_and_save_result:
  "fst (cr1_export_and_save dev a af tokens w) \<in>
     {Inr Cancelled, Inr WriteAborted, Inr Completed, Inl BSMSOutOfSpace}"
  using save_session_add_result(2)
  by (auto simp: cr1_export_and_save_def Let_def)

lemma coordinator_round1_errors:
  "(fst (bsms_coordinator_round1 dev a w) = Inl SignersOutOfRange \<longleftrightarrow>
      \<not> (2 \<le> cr1_N a \<and> cr1_N a \<le> 15)) \<and>
   (fst (bsms_coordinator_round1 dev a w) = Inl ThresholdOutOfRange \<longleftrightarrow>
      (2 \<le> cr1_N a \<and> cr1_N a \<le> 15) \<and> \<not> (1 \<le> cr1_M a \<and> cr1_M a \<le> cr1_N a))"
proof -
  have "fst (cr1_export_and_save dev a af tokens w) \<noteq> Inl SignersOutOfRange \<and>
        fst (cr1_export_and_save dev a af tokens w) \<noteq> Inl ThresholdOutOfRange" for af tokens
    using cr1_export_and_save_result [of dev a af tokens w] by auto
  then show ?thesis
    by (auto simp: bsms_coordinator_round1_def MAX_SIGNERS_def)
qed

text \<open>
  C8. Coordinator round 1 raises the error on the number of signers exactly when N is
  not in 2..15, and the error on the threshold exactly when N is in range and M is not
  in 1..N; a rejected round changes nothing. At the bounds: N = 2 and N = 15 pass,
  N = 1 and N = 16 are rejected, M = 1 passes and M = N + 1 is rejected.
\<close>

theorem coordinator_round1_bounds:
  "(fst (bsms_coordinator_round1 dev a w) = Inl SignersOutOfRange \<longleftrightarrow>
      \<not> (2 \<le> cr1_N a \<and> cr1_N a \<le> 15)) \<and>
   (fst (bsms_coordinator_round1 dev a w) = Inl ThresholdOutOfRange \<longleftrightarrow>
      (2 \<le> cr1_N a \<and> cr1_N a \<le> 15) \<and> \<not> (1 \<le> cr1_M a \<and> cr1_M a \<le> cr1_N a)) \<and>
   bsms_coordinator_round1 dev (a\<lparr>cr1_N := 1\<rparr>) w = (Inl SignersOutOfRange, w) \<and>
   bsms_coordinator_round1 dev (a\<lparr>cr1_N := 16\<rparr>) w = (Inl SignersOutOfRange, w) \<and>
   fst (bsms_coordinator_round1 dev (a\<lparr>cr1_N := 2, cr1_M := 1\<rparr>) w) \<noteq> Inl SignersOutOfRange \<and>
   fst (bsms_coordinator_round1 dev (a\<lparr>cr1_N := 2, cr1_M := 1\<rparr>) w) \<noteq> Inl ThresholdOutOfRange \<and>
   fst (bsms_coordinator_round1 dev (a\<lparr>cr1_N := 15, cr1_M := 1\<rparr>) w) \<noteq> Inl SignersOutOfRange \<and>
   fst (bsms_coordinator_round1 dev (a\<lparr>cr1_N := 15, cr1_M := 1\<rparr>) w) \<noteq> Inl ThresholdOutOfRange \<and>
   fst (bsms_coordinator_round1 dev (a\<lparr>cr1_N := 15, cr1_M := 15\<rparr>) w) \<noteq>
     Inl ThresholdOutOfRange \<and>
   bsms_coordinator_round1 dev (a\<lparr>cr1_N := 15, cr1_M := 16\<rparr>) w = (Inl ThresholdOutOfRange, w) \<and>
   bsms_coordinator_round1 dev (a\<lparr>cr1_N := 2, cr1_M := 0\<rparr>) w = (Inl ThresholdOutOfRange, w)"
proof -
  have rej: "bsms_coordinator_round1 dev (a\<lparr>cr1_N := 1\<rparr>) w = (Inl SignersOutOfRange, w)"
    "bsms_coordinator_round1 dev (a\<lparr>cr1_N := 16\<rparr>) w = (Inl SignersOutOfRange, w)"
    "bsms_coordinator_round1 dev (a\<lparr>cr1_N := 15, cr1_M := 16\<rparr>) w = (Inl ThresholdOutOfRange, w)"
    "bsms_coordinator_round1 dev (a\<lparr>cr1_N := 2, cr1_M := 0\<rparr>) w = (Inl ThresholdOutOfRange, w)"
    by (simp_all add: bsms_coordinator_round1_def MAX_SIGNERS_def)
  have acc: "fst (bsms_coordinator_round1 dev (a\<lparr>cr1_N := 2, cr1_M := 1\<rparr>) w) \<noteq>
      Inl SignersOutOfRange"
    "fst (bsms_coordinator_round1 dev (a\<lparr>cr1_N := 2, cr1_M := 1\<rparr>) w) \<noteq> Inl ThresholdOutOfRange"
    "fst (bsms_coordinator_round1 dev (a\<lparr>cr1_N := 15, cr1_M := 1\<rparr>) w) \<noteq> Inl SignersOutOfRange"
    "fst (bsms_coordinator_round1 dev (a\<lparr>cr1_N := 15, cr1_M := 1\<rparr>) w) \<noteq> Inl ThresholdOutOfRange"
    "fst (bsms_coordinator_round1 dev (a\<lparr>cr1_N := 15, cr1_M := 15\<rparr>) w) \<noteq>
      Inl ThresholdOutOfRange"
    using coordinator_round1_errors [of dev "a\<lparr>cr1_N := 2, cr1_M := 1\<rparr>" w]
      coordinator_round1_errors [of dev "a\<lparr>cr1_N := 15, cr1_M := 1\<rparr>" w]
      coordinator_round1_errors [of dev "a\<lparr>cr1_N := 15, cr1_M := 15\<rparr>" w]
    by simp_all
  from rej acc coordinator_round1_errors [of dev a w] show ?thesis
    by simp
qed

subsection \<open>Signer round 1\<close>

lemma sr1_export_and_save_result:
  "fst (sr1_export_and_save dev a t k d w) \<in>
     {Inr Cancelled, Inr WriteAborted, Inr Completed, Inl BSMSOutOfSpace}"
  using save_session_add_result(1)
  by (auto simp: sr1_export_and_save_def Let_def)

lemma sr1_export_and_save_signatures:
  "signatures (snd (sr1_export_and_save dev a t k d w)) = signatures w"
  by (simp add: sr1_export_and_save_def Let_def save_session_signatures)

lemma key_derivation_function_error:
  "key_derivation_function p t = Inl e \<Longrightarrow> e = UnhexlifyError"
  by (auto simp: key_derivation_function_def split: if_splits option.splits)

lemma sr1_sign_and_encrypt_result:
  "fst (sr1_sign_and_encrypt dev a t kd w) \<in>
     {Inr Cancelled, Inr WriteAborted, Inr Completed, Inl BSMSOutOfSpace, Inl UnhexlifyError}"
proof (cases "key_derivation_function (prims dev) t")
  case (Inl e)
  then show ?thesis
    using key_derivation_function_error [OF Inl]
    by (simp add: sr1_sign_and_encrypt_def Let_def)
next
  case (Inr k)
  have "fst (sr1_export_and_save dev a t k d w') \<in>
     {Inr Cancelled, Inr WriteAborted, Inr Completed, Inl BSMSOutOfSpace, Inl UnhexlifyError}"
    for d w'
    using sr1_export_and_save_result [of dev a t k d w'] by blast
  with Inr show ?thesis
    by (simp add: sr1_sign_and_encrypt_def Let_def)
qed

text \<open>The block that signs uses the private key once, whatever happens after it.\<close>

lemma sr1_sign_and_encrypt_signs:
  "\<exists>sk digest.
     signatures (snd (sr1_sign_and_encrypt dev a t kd w)) = signatures w @ [(sk, digest)]"
  by (simp add: sr1_sign_and_encrypt_def Let_def sr1_export_and_save_signatures
      split: sum.splits)

text \<open>\<^verbatim>\<open>int(s, 16)\<close> returns on a base prefix followed by hexadecimal digits.\<close>

lemma py_int16_ok_prefixed:
  assumes "p = ''0x'' \<or> p = ''0X''" and "is_hex_string h" and "h \<noteq> []"
  shows "py_int16_ok (p @ h)"
proof -
  from assms(3) obtain c cs where h: "h = c # cs" by (cases h) auto
  with assms(2) have c: "is_hex_char c" and cs: "list_all is_hex_char cs"
    by (simp_all add: is_hex_string_def)
  from c have c_us: "c \<noteq> CHR ''_''" by (auto simp: is_hex_char_def)
  have sp: "\<not> is_space_char CHR ''0''" "\<not> is_space_char CHR ''x''" "\<not> is_space_char CHR ''X''"
    by (simp_all add: is_space_char_def)
  have "list_all (\<lambda>c. \<not> is_space_char c) (rev (p @ h))"
    using assms(1) hex_string_no_space [OF assms(2)] sp by (auto simp: list_all_iff)
  then have "dropWhile is_space_char (rev (p @ h)) = rev (p @ h)"
    by (rule dropWhile_none)
  moreover have "dropWhile is_space_char (p @ h) = p @ h"
    using assms(1) sp by auto
  ultimately have strip: "py_strip (p @ h) = p @ h"
    by (simp add: py_strip_def)
  have sign: "strip_sign (p @ h) = p @ h"
    using assms(1) by (auto simp: strip_sign_def)
  have pre: "strip_base16_prefix (p @ h) = h"
    using assms(1) h c_us by (auto simp: strip_base16_prefix_def)
  have "py_int16_ok (p @ h) = hex_body h"
    by (simp add: py_int16_ok_def strip sign pre)
  also have "hex_body h"
    using c cs by (simp add: h hex_body_def hex_rest_all_hex)
  finally show ?thesis .
qed

text \<open>
  C4. The claim: a token made of the prefix \<^verbatim>\<open>0x\<close> or \<^verbatim>\<open>0X\<close> and 16 or 32
  hexadecimal characters is accepted by signer round 1, which strips the prefix and
  persists the rest. The round validates the token before it normalises it: for every
  such token \<^verbatim>\<open>validate_token\<close> raises the error on the length (18 or 34 characters),
  the round ends there and nothing is persisted, although the normalised token is valid.
\<close>

theorem prefixed_token_is_rejected:
  assumes "p = ''0x'' \<or> p = ''0X''"
    and "is_hex_string h"
    and "length h = 16 \<or> length h = 32"
    and "sr1_token a = p @ h"
  shows "bsms_signer_round1 dev a w = (Inl InvalidTokenLength, w) \<and>
         normalize_token (p @ h) = h \<and>
         validate_token h = Inr ()"
proof -
  from assms(3) have ne: "h \<noteq> []" by auto
  have ok: "py_int16_ok (p @ h)"
    using py_int16_ok_prefixed [OF assms(1,2) ne] .
  have len: "length (p @ h) \<noteq> 16" "length (p @ h) \<noteq> 32" "p @ h \<noteq> ''00''"
    using assms(1,3) by auto
  have v: "validate_token (p @ h) = Inl InvalidTokenLength"
    using ok len by (simp add: validate_token_def)
  have n: "normalize_token (p @ h) = h"
    using assms(1) by (auto simp: normalize_token_def)
  show ?thesis
    using v n validate_token_hex_ok [OF assms(2,3)] assms(4)
    by (simp add: bsms_signer_round1_def)
qed

theorem prefixed_token_is_rejected_witness:
  "is_hex_string ''a1b2c3d4e5f60718'' \<and>
   length ''a1b2c3d4e5f60718'' = 16 \<and>
   sr1_token (example_sr1_answers ''0xa1b2c3d4e5f60718'' ''my key'') =
     ''0x'' @ ''a1b2c3d4e5f60718'' \<and>
   bsms_signer_round1 example_device (example_sr1_answers ''0xa1b2c3d4e5f60718'' ''my key'')
     example_world = (Inl InvalidTokenLength, example_world) \<and>
   normalize_token (''0x'' @ ''a1b2c3d4e5f60718'') = ''a1b2c3d4e5f60718'' \<and>
   validate_token ''a1b2c3d4e5f60718'' = Inr ()"
proof -
  have a: "is_hex_string ''a1b2c3d4e5f60718''"
    by (simp add: is_hex_string_def is_hex_char_def)
  have b: "length ''a1b2c3d4e5f60718'' = 16 \<or> length ''a1b2c3d4e5f60718'' = 32"
    by simp
  have c: "sr1_token (example_sr1_answers ''0xa1b2c3d4e5f60718'' ''my key'') =
      ''0x'' @ ''a1b2c3d4e5f60718''"
    by (simp add: example_sr1_answers_def)
  have d: "''0x'' = ''0x'' \<or> ''0x'' = ''0X''"
    by simp
  from prefixed_token_is_rejected [OF d a b c, of example_device example_world] a c
  show ?thesis by simp
qed

text \<open>
  C9. In signer round 1, once the token is valid and confirmed and an address format
  is chosen: a key description of more than 80 characters makes the round raise the
  error on the description, with the settings, the uses of the private key and the
  exported data as they were; with a description of at most 80 characters the round
  does not raise that error and goes on to sign.
\<close>

theorem description_length_limit:
  assumes "validate_token (sr1_token a) = Inr ()"
    and "sr1_token_correct a = CHR ''y''"
    and "sr1_addr_fmt a = CHR ''y'' \<or> sr1_addr_fmt a = CHR ''1'' \<or> sr1_addr_fmt a = CHR ''2''"
  shows "(80 < length (sr1_key_description a) \<longrightarrow>
            bsms_signer_round1 dev a w =
              (Inl (DescriptionTooLong (length (sr1_key_description a))), w)) \<and>
         (length (sr1_key_description a) \<le> 80 \<longrightarrow>
            (\<forall>n. fst (bsms_signer_round1 dev a w) \<noteq> Inl (DescriptionTooLong n)) \<and>
            (\<exists>sk digest. signatures (snd (bsms_signer_round1 dev a w)) =
               signatures w @ [(sk, digest)]))"
proof -
  have r: "length (sr1_key_description a) \<le> 80 \<Longrightarrow>
      bsms_signer_round1 dev a w =
        sr1_sign_and_encrypt dev a (normalize_token (sr1_token a)) (sr1_key_description a) w"
    using assms by (auto simp: bsms_signer_round1_def Let_def)
  have l: "80 < length (sr1_key_description a) \<Longrightarrow>
      bsms_signer_round1 dev a w = (Inl (DescriptionTooLong (length (sr1_key_description a))), w)"
    using assms by (auto simp: bsms_signer_round1_def Let_def)
  have n: "fst (sr1_sign_and_encrypt dev a t kd w) \<noteq> Inl (DescriptionTooLong n)" for t kd n
    using sr1_sign_and_encrypt_result [of dev a t kd w] by auto
  show ?thesis
    using r l n sr1_sign_and_encrypt_signs [of dev a _ _ w] by auto
qed

theorem description_length_limit_witness:
  "validate_token (sr1_token (example_sr1_answers ''00'' (replicate 81 CHR ''a''))) = Inr () \<and>
   80 < length (sr1_key_description (example_sr1_answers ''00'' (replicate 81 CHR ''a''))) \<and>
   bsms_signer_round1 example_device (example_sr1_answers ''00'' (replicate 81 CHR ''a''))
     example_world = (Inl (DescriptionTooLong 81), example_world) \<and>
   length (sr1_key_description (example_sr1_answers ''00'' (replicate 80 CHR ''a''))) = 80 \<and>
   (\<forall>n. fst (bsms_signer_round1 example_device
             (example_sr1_answers ''00'' (replicate 80 CHR ''a'')) example_world) \<noteq>
          Inl (DescriptionTooLong n)) \<and>
   (\<exists>sk digest.
      signatures (snd (bsms_signer_round1 example_device
        (example_sr1_answers ''00'' (replicate 80 CHR ''a'')) example_world)) = [(sk, digest)])"
proof -
  let ?a = "\<lambda>n. example_sr1_answers ''00'' (replicate n CHR ''a'')"
  have v: "validate_token (sr1_token (?a n)) = Inr ()" for n
    by (simp add: example_sr1_answers_def validate_token_def)
  have y: "sr1_token_correct (?a n) = CHR ''y''" for n
    by (simp add: example_sr1_answers_def)
  have f: "sr1_addr_fmt (?a n) = CHR ''y'' \<or> sr1_addr_fmt (?a n) = CHR ''1'' \<or>
      sr1_addr_fmt (?a n) = CHR ''2''" for n
    by (simp add: example_sr1_answers_def)
  have len: "length (sr1_key_description (?a n)) = n" for n
    by (simp add: example_sr1_answers_def sr1_key_description_def)
  have s: "signatures example_world = []"
    by (simp add: example_world_def)
  from description_length_limit [OF v y f, of 81 example_device example_world]
    description_length_limit [OF v y f, of 80 example_device example_world]
    v [of 81] len [of 81] len [of 80] s
  show ?thesis by simp
qed

subsection \<open>Signer round 2\<close>

lemma sr2_collect_nodes:
  "sr2_collect dev keys = Inr (my_keys, nodes) \<Longrightarrow>
     map (\<lambda>(x, deriv_path, ext_key). hd_deserialize dev ext_key) keys = map Some nodes"
proof (induction keys arbitrary: my_keys nodes)
  case Nil
  then show ?case by simp
next
  case (Cons k keys)
  obtain x dp ek where k: "k = (x, dp, ek)" by (cases k)
  from Cons.prems k obtain node mk ns where
    "hd_deserialize dev ek = Some node" "sr2_collect dev keys = Inr (mk, ns)" "nodes = node # ns"
    by (auto split: if_splits option.splits sum.splits)
  with Cons.IH [of mk ns] k show ?case by simp
qed

lemma sr2_parse_and_locate_Inr:
  assumes "sr2_parse_and_locate dev data = Inr (desc, ms_name, desc_obj, nodes, addr)"
  shows "map (\<lambda>(x, deriv_path, ext_key). hd_deserialize dev ext_key) (desc_keys desc_obj) =
           map Some nodes"
    and "\<exists>v t r. py_split (CHR 0x0A) data = [v, t, r, addr]"
    and "descriptor_parse dev desc = Some desc_obj"
  using assms sr2_collect_nodes [of dev "desc_keys desc_obj" _ nodes]
  by (auto simp: sr2_parse_and_locate_def Let_def
      split: if_splits list.splits option.splits sum.splits prod.splits)

text \<open>
  C1. In signer round 2, once the payload is parsed and the own key found (the text
  \<open>desc\<close>, the descriptor \<open>desc_obj\<close>, the nodes of its keys and the address line
  \<open>addr\<close>): there is one node for every key of the descriptor, in order; the first
  address is \<^verbatim>\<open>p2sh_address\<close>, under the address format of the descriptor, of the
  script that \<^verbatim>\<open>make_redeem_script\<close> builds from M and all nodes derived at index 0;
  the round hands the descriptor on if that address equals the address line and
  raises the address mismatch otherwise. A round that succeeds has passed this check.
\<close>

theorem signer_round2_address_agreement:
  "(sr2_parse_and_locate dev data = Inr (desc, ms_name, desc_obj, nodes, addr) \<longrightarrow>
      map (\<lambda>(x, deriv_path, ext_key). hd_deserialize dev ext_key) (desc_keys desc_obj) =
        map Some nodes \<and>
      (\<exists>v t r. py_split (CHR 0x0A) data = [v, t, r, addr]) \<and>
      sr2_first_address dev desc_obj nodes =
        p2sh_address dev (desc_addr_fmt desc_obj)
          (make_redeem_script dev (desc_M desc_obj)
             (map (\<lambda>node. hd_derive dev node 0 False) nodes) 0) \<and>
      bsms_signer_round2 dev i data =
        (if sr2_first_address dev desc_obj nodes = addr then Inr (desc, ms_name, i)
         else Inl (AddressMismatch (sr2_first_address dev desc_obj nodes) addr))) \<and>
   (bsms_signer_round2 dev i data = Inr r \<longrightarrow>
      (\<exists>desc' ms_name' desc_obj' nodes' addr'.
         sr2_parse_and_locate dev data = Inr (desc', ms_name', desc_obj', nodes', addr') \<and>
         sr2_first_address dev desc_obj' nodes' = addr' \<and> r = (desc', ms_name', i)))"
proof -
  have a: "sr2_parse_and_locate dev data = Inr (desc, ms_name, desc_obj, nodes, addr) \<Longrightarrow>
      bsms_signer_round2 dev i data =
        (if sr2_first_address dev desc_obj nodes = addr then Inr (desc, ms_name, i)
         else Inl (AddressMismatch (sr2_first_address dev desc_obj nodes) addr))"
    by (simp add: bsms_signer_round2_def Let_def)
  have b: "bsms_signer_round2 dev i data = Inr r \<Longrightarrow>
      \<exists>desc' ms_name' desc_obj' nodes' addr'.
         sr2_parse_and_locate dev data = Inr (desc', ms_name', desc_obj', nodes', addr') \<and>
         sr2_first_address dev desc_obj' nodes' = addr' \<and> r = (desc', ms_name', i)"
    by (auto simp: bsms_signer_round2_def Let_def split: sum.splits prod.splits if_splits)
  have c: "sr2_first_address dev desc_obj nodes =
        p2sh_address dev (desc_addr_fmt desc_obj)
          (make_redeem_script dev (desc_M desc_obj)
             (map (\<lambda>node. hd_derive dev node 0 False) nodes) 0)"
    by (simp add: sr2_first_address_def Let_def)
  show ?thesis
    using a b c sr2_parse_and_locate_Inr(1,2) [of dev data desc ms_name desc_obj nodes addr]
    by blast
qed

lemma example_parse_and_locate:
  "sr2_parse_and_locate example_device (example_round2_data ''412f30422f30'') =
     Inr (''wsh(sortedmulti(2,A/0/*,B/0/*))#00000000'', ''bsms_0000'', example_descriptor,
          [''A'', ''B''], ''412f30422f30'')"
  "sr2_parse_and_locate example_device (example_round2_data ''412f30422f31'') =
     Inr (''wsh(sortedmulti(2,A/0/*,B/0/*))#00000000'', ''bsms_0000'', example_descriptor,
          [''A'', ''B''], ''412f30422f31'')"
  by (simp_all add: sr2_parse_and_locate_def example_round2_data_def nl_def startswith_def
      BSMS_VERSION_def ALLOWED_PATH_RESTRICTIONS_def py_replace.simps example_device_def
      example_descriptor_def)

lemma example_first_address:
  "sr2_first_address example_device example_descriptor [''A'', ''B''] = ''412f30422f30''"
  by (simp add: sr2_first_address_def example_device_def example_descriptor_def
      py_str_nat.simps b2a_hex_def hex_digit_def)

theorem signer_round2_address_agreement_witness:
  "sr2_parse_and_locate example_device (example_round2_data ''412f30422f30'') =
     Inr (''wsh(sortedmulti(2,A/0/*,B/0/*))#00000000'', ''bsms_0000'', example_descriptor,
          [''A'', ''B''], ''412f30422f30'') \<and>
   bsms_signer_round2 example_device 0 (example_round2_data ''412f30422f30'') =
     Inr (''wsh(sortedmulti(2,A/0/*,B/0/*))#00000000'', ''bsms_0000'', 0) \<and>
   sr2_parse_and_locate example_device (example_round2_data ''412f30422f31'') =
     Inr (''wsh(sortedmulti(2,A/0/*,B/0/*))#00000000'', ''bsms_0000'', example_descriptor,
          [''A'', ''B''], ''412f30422f31'') \<and>
   bsms_signer_round2 example_device 0 (example_round2_data ''412f30422f31'') =
     Inl (AddressMismatch ''412f30422f30'' ''412f30422f31'') \<and>
   (\<exists>desc' ms_name' desc_obj' nodes' addr'.
      sr2_parse_and_locate example_device (example_round2_data ''412f30422f30'') =
        Inr (desc', ms_name', desc_obj', nodes', addr') \<and>
      sr2_first_address example_device desc_obj' nodes' = addr')"
proof -
  let ?d = "''wsh(sortedmulti(2,A/0/*,B/0/*))#00000000''"
  have "bsms_signer_round2 example_device 0 (example_round2_data ''412f30422f30'') =
      (if sr2_first_address example_device example_descriptor [''A'', ''B''] = ''412f30422f30''
       then Inr (?d, ''bsms_0000'', 0)
       else Inl (AddressMismatch
                   (sr2_first_address example_device example_descriptor [''A'', ''B''])
                   ''412f30422f30''))"
    using signer_round2_address_agreement
        [of example_device "example_round2_data ''412f30422f30''" ?d "''bsms_0000''"
          example_descriptor "[''A'', ''B'']" "''412f30422f30''" 0]
      example_parse_and_locate(1)
    by blast
  then have good: "bsms_signer_round2 example_device 0 (example_round2_data ''412f30422f30'') =
      Inr (?d, ''bsms_0000'', 0)"
    by (simp add: example_first_address)
  have "bsms_signer_round2 example_device 0 (example_round2_data ''412f30422f31'') =
      (if sr2_first_address example_device example_descriptor [''A'', ''B''] = ''412f30422f31''
       then Inr (?d, ''bsms_0000'', 0)
       else Inl (AddressMismatch
                   (sr2_first_address example_device example_descriptor [''A'', ''B''])
                   ''412f30422f31''))"
    using signer_round2_address_agreement
        [of example_device "example_round2_data ''412f30422f31''" ?d "''bsms_0000''"
          example_descriptor "[''A'', ''B'']" "''412f30422f31''" 0]
      example_parse_and_locate(2)
    by blast
  then have bad: "bsms_signer_round2 example_device 0 (example_round2_data ''412f30422f31'') =
      Inl (AddressMismatch ''412f30422f30'' ''412f30422f31'')"
    by (simp add: example_first_address)
  have passed: "\<exists>desc' ms_name' desc_obj' nodes' addr'.
      sr2_parse_and_locate example_device (example_round2_data ''412f30422f30'') =
        Inr (desc', ms_name', desc_obj', nodes', addr') \<and>
      sr2_first_address example_device desc_obj' nodes' = addr'"
    using signer_round2_address_agreement
        [of example_device "example_round2_data ''412f30422f30''" _ _ _ _ _ 0
          "(?d, ''bsms_0000'', 0)"]
      good
    by blast
  from good bad passed example_parse_and_locate show ?thesis
    by blast
qed

section \<open>Settings write-back: what \<^verbatim>\<open>add\<close> does case by case\<close>

lemma map_of_dict_set: "map_of (dict_set k v xs) k = Some v"
  by (induction xs) auto

lemma dict_value_cong:
  assumes "dict_objs s' d' = dict_objs s d"
    and "list_all (\<lambda>(k, l). list_objs s' l = list_objs s l) (dict_objs s d)"
  shows "dict_value s' d' = dict_value s d"
  using assms by (auto simp: dict_value_def list_all_iff)

text \<open>When the save succeeds, the session is appended and saved.\<close>

lemma BSMSSettings_add_saved:
  assumes "save_outcomes s = [] \<or> hd (save_outcomes s)"
  shows "fst (BSMSSettings_add who v s) = Inr () \<and>
         map_of (BSMSSettings_get (snd (BSMSSettings_add who v s))) who =
           Some ((case map_of (BSMSSettings_get s) who of None \<Rightarrow> [] | Some xs \<Rightarrow> xs) @ [v]) \<and>
         nvram_bsms (snd (BSMSSettings_add who v s)) =
           Some (BSMSSettings_get (snd (BSMSSettings_add who v s)))"
proof -
  have m: "map_of (map (\<lambda>(k, l). (k, f l)) xs) who = map_option f (map_of xs who)"
    for f :: "ref \<Rightarrow> session list" and xs :: "(string \<times> ref) list"
    by (simp add: map_of_map [unfolded comp_def, THEN fun_cong])
  consider (a) "current_bsms s = None"
    | (b) d where "current_bsms s = Some d" "map_of (dict_objs s d) who = None"
    | (c) d l where "current_bsms s = Some d" "map_of (dict_objs s d) who = Some l"
    by (cases "current_bsms s") auto
  then show ?thesis
  proof cases
    case a
    with assms show ?thesis
      by (cases "save_outcomes s")
         (auto simp: BSMSSettings_add_def settings_get_bsms_def dict_copy_def Let_def
           settings_set_bsms_def BSMSSettings_save_def settings_save_def settings_value_def
           BSMSSettings_get_def dict_value_def)
  next
    case b
    with assms show ?thesis
      by (cases "save_outcomes s")
         (auto simp: BSMSSettings_add_def settings_get_bsms_def dict_copy_def Let_def
           settings_set_bsms_def BSMSSettings_save_def settings_save_def settings_value_def
           BSMSSettings_get_def dict_value_def m map_of_dict_set)
  next
    case c
    with assms show ?thesis
      by (cases "save_outcomes s")
         (auto simp: BSMSSettings_add_def settings_get_bsms_def dict_copy_def Let_def
           settings_set_bsms_def BSMSSettings_save_def settings_save_def settings_value_def
           BSMSSettings_get_def dict_value_def m)
  qed
qed

text \<open>
  When the first save fails and the key is new (the first session of its kind), the
  snapshot does restore the settings: the value in memory is the old one, and the
  second save, if it succeeds, writes the old value.
\<close>

lemma BSMSSettings_add_new_key_restores:
  assumes wf: "store_wf s"
    and new: "map_of (BSMSSettings_get s) who = None"
    and out: "save_outcomes s = False # rest"
  shows "fst (BSMSSettings_add who v s) = Inl BSMSOutOfSpace \<and>
         BSMSSettings_get (snd (BSMSSettings_add who v s)) = BSMSSettings_get s \<and>
         nvram_bsms (snd (BSMSSettings_add who v s)) =
           (if rest = [] \<or> hd rest then Some (BSMSSettings_get s) else nvram_bsms s)"
proof (cases "current_bsms s")
  case None
  with out show ?thesis
    by (cases rest)
       (simp_all add: BSMSSettings_add_def settings_get_bsms_def dict_copy_def Let_def
         settings_set_bsms_def BSMSSettings_save_def settings_save_def settings_value_def
         dict_value_def BSMSSettings_get_def)
next
  case (Some d)
  with wf have d: "d < next_ref s" and refs: "list_all (\<lambda>(k, l). l < next_ref s) (dict_objs s d)"
    by (simp_all add: store_wf_def)
  from new Some have absent: "map_of (dict_objs s d) who = None"
    by (simp add: BSMSSettings_get_def settings_value_def map_of_dict_value)
  have same: "dict_value s' (next_ref s) = dict_value s d"
    if "dict_objs s' = (dict_objs s)
          (next_ref s := dict_objs s d, d := dict_set who (Suc (next_ref s)) (dict_objs s d))"
      and "list_objs s' = (list_objs s)(Suc (next_ref s) := [v])" for s'
    using d refs that by (intro dict_value_cong) (auto simp: list_all_iff)
  show ?thesis
    using Some out absent d
    by (cases rest)
       (simp_all add: BSMSSettings_add_def settings_get_bsms_def dict_copy_def Let_def
         settings_set_bsms_def BSMSSettings_save_def settings_save_def settings_value_def
         BSMSSettings_get_def same)
qed

text \<open>
  When the first save fails and the key has a list already, the list in memory keeps
  the appended session: the snapshot shares that list.
\<close>

lemma BSMSSettings_add_existing_key_keeps:
  assumes "current_bsms s = Some d"
    and "map_of (dict_objs s d) who = Some l"
    and "save_outcomes s = False # rest"
  shows "fst (BSMSSettings_add who v s) = Inl BSMSOutOfSpace \<and>
         map_of (BSMSSettings_get (snd (BSMSSettings_add who v s))) who =
           Some (list_objs s l @ [v])"
proof -
  have m: "map_of (map (\<lambda>(k, l). (k, f l)) xs) who = map_option f (map_of xs who)"
    for f :: "ref \<Rightarrow> session list" and xs :: "(string \<times> ref) list"
    by (simp add: map_of_map [unfolded comp_def, THEN fun_cong])
  from assms show ?thesis
    by (cases rest)
       (auto simp: BSMSSettings_add_def settings_get_bsms_def dict_copy_def Let_def
         settings_set_bsms_def BSMSSettings_save_def settings_save_def settings_value_def
         BSMSSettings_get_def dict_value_def m)
qed

text \<open>
  When the first save of a removal fails, the list in memory stays without the removed
  session, for the same reason.
\<close>

lemma BSMSSettings_delete_failed_save_keeps:
  assumes "current_bsms s = Some d"
    and "map_of (dict_objs s d) who = Some l"
    and "py_pop (list_objs s l) index = Some xs"
    and "save_outcomes s = False # rest"
  shows "fst (BSMSSettings_delete who index s) = Inl BSMSOutOfSpace \<and>
         map_of (BSMSSettings_get (snd (BSMSSettings_delete who index s))) who = Some xs"
proof -
  have m: "map_of (map (\<lambda>(k, l). (k, f l)) ys) who = map_option f (map_of ys who)"
    for f :: "ref \<Rightarrow> session list" and ys :: "(string \<times> ref) list"
    by (simp add: map_of_map [unfolded comp_def, THEN fun_cong])
  from assms show ?thesis
    by (cases rest)
       (auto simp: BSMSSettings_delete_def settings_get_bsms_def dict_copy_def Let_def
         settings_set_bsms_def BSMSSettings_save_def settings_save_def settings_value_def
         BSMSSettings_get_def dict_value_def m)
qed

section \<open>Signer round 1: what is persisted\<close>

lemma save_session_signer_add_saved:
  assumes "save_outcomes (settings w) = [] \<or> hd (save_outcomes (settings w))"
  shows "fst (save_session (signer_add t) w) = Inr Completed \<and>
         get_signers (settings (snd (save_session (signer_add t) w))) =
           get_signers (settings w) @ [SignerSession t] \<and>
         nvram_bsms (settings (snd (save_session (signer_add t) w))) =
           Some (BSMSSettings_get (settings (snd (save_session (signer_add t) w))))"
  using BSMSSettings_add_saved [OF assms, of BSMS_SIGNER_SETTINGS "SignerSession t"]
  by (cases "BSMSSettings_add BSMS_SIGNER_SETTINGS (SignerSession t) (settings w)")
     (auto simp: save_session_def signer_add_def get_signers_def split: option.splits)

text \<open>
  A round that passes the validation, the prompts, the key derivation and the export,
  and whose save succeeds, appends the normalised token to the signer sessions.
\<close>

lemma signer_round1_persists:
  assumes "validate_token (sr1_token a) = Inr ()"
    and "sr1_token_correct a = CHR ''y''"
    and "sr1_addr_fmt a = CHR ''y'' \<or> sr1_addr_fmt a = CHR ''1'' \<or> sr1_addr_fmt a = CHR ''2''"
    and "length (sr1_key_description a) \<le> 80"
    and "key_derivation_function (prims dev) (normalize_token (sr1_token a)) = Inr k"
    and "(sr1_export_prompt a \<and> sr1_export a = CHR ''3'') \<or>
         ((sr1_export_prompt a \<longrightarrow> sr1_export a = CHR ''1'' \<or> sr1_export a = CHR ''2'') \<and>
          sr1_write a = WriteOk)"
    and "save_outcomes (settings w) = [] \<or> hd (save_outcomes (settings w))"
  shows "fst (bsms_signer_round1 dev a w) = Inr Completed \<and>
         get_signers (settings (snd (bsms_signer_round1 dev a w))) =
           get_signers (settings w) @ [SignerSession (normalize_token (sr1_token a))]"
proof -
  let ?t = "normalize_token (sr1_token a)"
  have r: "bsms_signer_round1 dev a w = sr1_sign_and_encrypt dev a ?t (sr1_key_description a) w"
    using assms(1-4) by (auto simp: bsms_signer_round1_def Let_def)
  have e: "fst (sr1_export_and_save dev a ?t k d w') = Inr Completed \<and>
      get_signers (settings (snd (sr1_export_and_save dev a ?t k d w'))) =
        get_signers (settings w') @ [SignerSession ?t]"
    if ok: "save_outcomes (settings w') = [] \<or> hd (save_outcomes (settings w'))" for d w'
  proof -
    have s: "fst (save_session (signer_add ?t) w'') = Inr Completed \<and>
         get_signers (settings (snd (save_session (signer_add ?t) w''))) =
           get_signers (settings w') @ [SignerSession ?t]"
      if "settings w'' = settings w'" for w''
      using save_session_signer_add_saved [of w'' ?t] that ok by simp
    show ?thesis
      using assms(6) s by (auto simp: sr1_export_and_save_def Let_def)
  qed
  show ?thesis
    using assms(5,7) e by (simp add: r sr1_sign_and_encrypt_def Let_def)
qed

text \<open>
  On the example device, the token \<^verbatim>\<open>0x12345678901234\<close> goes through the whole
  round: the 14-digit token is persisted as a signer session.
\<close>

lemma signer_round1_persists_14_digits:
  "fst (bsms_signer_round1 example_device (example_sr1_answers ''0x12345678901234'' ''my key'')
     example_world) = Inr Completed \<and>
   get_signers (settings (snd (bsms_signer_round1 example_device
     (example_sr1_answers ''0x12345678901234'' ''my key'') example_world))) =
     [SignerSession ''a1b2c3d4e5f60718'', SignerSession ''12345678901234'']"
proof -
  let ?a = "example_sr1_answers ''0x12345678901234'' ''my key''"
  have v: "validate_token (sr1_token ?a) = Inr ()"
    by (simp add: example_sr1_answers_def validate_token_def py_int16_ok_def py_strip_def
        is_space_char_def strip_sign_def strip_base16_prefix_def hex_body_def is_hex_char_def)
  have n: "normalize_token (sr1_token ?a) = ''12345678901234''"
    by (simp add: example_sr1_answers_def normalize_token_def)
  have k: "\<exists>k. key_derivation_function (prims example_device) ''12345678901234'' = Inr k"
    by (simp add: key_derivation_function_def hex_val_def)
  then obtain k where
    k: "key_derivation_function (prims example_device) (normalize_token (sr1_token ?a)) = Inr k"
    using n by auto
  have rest: "sr1_token_correct ?a = CHR ''y''"
    "sr1_addr_fmt ?a = CHR ''y'' \<or> sr1_addr_fmt ?a = CHR ''1'' \<or> sr1_addr_fmt ?a = CHR ''2''"
    "length (sr1_key_description ?a) \<le> 80"
    "(sr1_export_prompt ?a \<and> sr1_export ?a = CHR ''3'') \<or>
     ((sr1_export_prompt ?a \<longrightarrow> sr1_export ?a = CHR ''1'' \<or> sr1_export ?a = CHR ''2'') \<and>
      sr1_write ?a = WriteOk)"
    "save_outcomes (settings example_world) = [] \<or> hd (save_outcomes (settings example_world))"
    by (simp_all add: example_sr1_answers_def sr1_key_description_def example_world_def
        example_store_def)
  have g: "get_signers (settings example_world) = [SignerSession ''a1b2c3d4e5f60718'']"
    by (simp add: example_world_def example_store_def store_defs)
  from signer_round1_persists [OF v rest(1-3) k rest(4,5)] n g show ?thesis
    by simp
qed

end
